theory Spec2Isabelle
  imports Complex_Main "HOL-Library.Word" "HOL-Library.Char_ord" "HOL-Library.List_Lexorder"
    "HOL-Library.Multiset"
begin

datatype error = FileNotFoundError | KeyError string | IndexError | ValueError

datatype pyfloat = Fin rat | PosInf | NegInf | NaN

type_synonym byte = "8 word"

definition slice :: "'a list \<Rightarrow> nat \<Rightarrow> nat \<Rightarrow> 'a list" where
  "slice xs i j = take (j - i) (drop i xs)"

definition unpack_I :: "byte list \<Rightarrow> nat" where
  "unpack_I bs = foldr (\<lambda>b acc. unat b + 256 * acc) bs 0"

definition f32_value :: "bool \<Rightarrow> nat \<Rightarrow> nat \<Rightarrow> pyfloat" where
  "f32_value negative e m =
     (let sign = (if negative then - 1 else 1) in
      if e = 255 then (if m \<noteq> 0 then NaN else if negative then NegInf else PosInf)
      else if e = 0 then Fin (sign * of_nat m / 2 ^ 149)
      else if 150 \<le> e then Fin (sign * of_nat (2 ^ 23 + m) * 2 ^ (e - 150))
      else Fin (sign * of_nat (2 ^ 23 + m) / 2 ^ (150 - e)))"

definition unpack_f :: "byte list \<Rightarrow> pyfloat" where
  "unpack_f bs =
     (let n = unpack_I bs
      in f32_value (n div 2 ^ 31 \<noteq> 0) ((n div 2 ^ 23) mod 256) (n mod 2 ^ 23))"

definition digit_char :: "nat \<Rightarrow> char" where
  "digit_char d = ''0123456789'' ! d"

function str_nat :: "nat \<Rightarrow> string" where
  "str_nat n = (if n < 10 then [digit_char n] else str_nat (n div 10) @ [digit_char (n mod 10)])"
  by pat_completeness auto
termination
  by (relation "measure id") auto

declare str_nat.simps [simp del]

function read_records :: "nat \<Rightarrow> byte list \<Rightarrow> byte list list" where
  "read_records n f =
     (let record = take n f in
      if record = [] then []
      else if length record \<noteq> n then read_records n (drop n f)
      else record # read_records n (drop n f))"
  by pat_completeness auto
termination
  by (relation "measure (\<lambda>(n, f). length f)") auto

declare read_records.simps [simp del]

record day_row =
  trade_date :: string
  open_p :: rat
  high :: rat
  low :: rat
  close :: rat
  vol :: nat
  amount :: rat
  mas :: "(nat \<times> pyfloat) list"

definition day_record :: "byte list \<Rightarrow> day_row" where
  "day_record record =
     \<lparr>trade_date = str_nat (unpack_I (slice record 0 4)),
      open_p = of_nat (unpack_I (slice record 4 8)) / 100,
      high = of_nat (unpack_I (slice record 8 12)) / 100,
      low = of_nat (unpack_I (slice record 12 16)) / 100,
      close = of_nat (unpack_I (slice record 16 20)) / 100,
      vol = unpack_I (slice record 20 24),
      amount = of_nat (unpack_I (slice record 24 28)) / 100,
      mas = []\<rparr>"

definition day_data :: "byte list \<Rightarrow> day_row list" where
  "day_data f = map day_record (read_records 32 f)"

definition parse_tdx_day_file :: "byte list \<Rightarrow> day_row list" where
  "parse_tdx_day_file f = sort_key trade_date (day_data f)"

record chip_row =
  chip_trade_date :: string
  chip_concentration_70 :: pyfloat

definition chip_record :: "byte list \<Rightarrow> chip_row" where
  "chip_record record =
     \<lparr>chip_trade_date = str_nat (unpack_I (slice record 0 4)),
      chip_concentration_70 = unpack_f (slice record 24 28)\<rparr>"

definition chip_data :: "byte list \<Rightarrow> chip_row list" where
  "chip_data f = map chip_record (read_records 48 f)"

definition parse_tdx_chip_data ::
  "(string \<Rightarrow> byte list option) \<Rightarrow> string \<Rightarrow> string \<Rightarrow> pyfloat option" where
  "parse_tdx_chip_data chip_files ts_code target_date =
     (case chip_files ts_code of
        None \<Rightarrow> None
      | Some f \<Rightarrow>
          (case filter (\<lambda>r. chip_trade_date r = target_date) (chip_data f) of
             [] \<Rightarrow> None
           | r # _ \<Rightarrow> Some (chip_concentration_70 r)))"


fun pf_less :: "pyfloat \<Rightarrow> pyfloat \<Rightarrow> bool" where
  "pf_less NaN _ = False"
| "pf_less _ NaN = False"
| "pf_less (Fin a) (Fin b) = (a < b)"
| "pf_less (Fin _) PosInf = True"
| "pf_less (Fin _) NegInf = False"
| "pf_less PosInf _ = False"
| "pf_less NegInf NegInf = False"
| "pf_less NegInf _ = True"

fun pf_div :: "pyfloat \<Rightarrow> pyfloat \<Rightarrow> pyfloat" where
  "pf_div NaN _ = NaN"
| "pf_div _ NaN = NaN"
| "pf_div (Fin a) (Fin b) =
     (if b \<noteq> 0 then Fin (a / b) else if a = 0 then NaN else if 0 < a then PosInf else NegInf)"
| "pf_div (Fin _) _ = Fin 0"
| "pf_div PosInf (Fin b) = (if 0 \<le> b then PosInf else NegInf)"
| "pf_div NegInf (Fin b) = (if 0 \<le> b then NegInf else PosInf)"
| "pf_div _ _ = NaN"

fun pf_sub :: "pyfloat \<Rightarrow> pyfloat \<Rightarrow> pyfloat" where
  "pf_sub NaN _ = NaN"
| "pf_sub _ NaN = NaN"
| "pf_sub (Fin a) (Fin b) = Fin (a - b)"
| "pf_sub (Fin _) PosInf = NegInf"
| "pf_sub (Fin _) NegInf = PosInf"
| "pf_sub PosInf PosInf = NaN"
| "pf_sub PosInf _ = PosInf"
| "pf_sub NegInf NegInf = NaN"
| "pf_sub NegInf _ = NegInf"

fun pf_mul :: "pyfloat \<Rightarrow> pyfloat \<Rightarrow> pyfloat" where
  "pf_mul NaN _ = NaN"
| "pf_mul _ NaN = NaN"
| "pf_mul (Fin a) (Fin b) = Fin (a * b)"
| "pf_mul (Fin a) PosInf = (if a = 0 then NaN else if 0 < a then PosInf else NegInf)"
| "pf_mul (Fin a) NegInf = (if a = 0 then NaN else if 0 < a then NegInf else PosInf)"
| "pf_mul PosInf (Fin b) = (if b = 0 then NaN else if 0 < b then PosInf else NegInf)"
| "pf_mul NegInf (Fin b) = (if b = 0 then NaN else if 0 < b then NegInf else PosInf)"
| "pf_mul PosInf PosInf = PosInf"
| "pf_mul PosInf NegInf = NegInf"
| "pf_mul NegInf PosInf = NegInf"
| "pf_mul NegInf NegInf = PosInf"

fun truthy :: "pyfloat option \<Rightarrow> bool" where
  "truthy None = False"
| "truthy (Some (Fin a)) = (a \<noteq> 0)"
| "truthy (Some _) = True"

definition iloc0 :: "'a list \<Rightarrow> error + 'a" where
  "iloc0 xs = (case xs of [] \<Rightarrow> Inl IndexError | x # _ \<Rightarrow> Inr x)"

definition df_tail :: "nat \<Rightarrow> 'a list \<Rightarrow> 'a list" where
  "df_tail n xs = drop (length xs - n) xs"

definition series_max :: "rat list \<Rightarrow> pyfloat" where
  "series_max xs = (case xs of [] \<Rightarrow> NaN | x # ys \<Rightarrow> Fin (fold max ys x))"

definition rolling_mean :: "nat \<Rightarrow> nat \<Rightarrow> rat list \<Rightarrow> pyfloat list" where
  "rolling_mean window min_periods xs =
     map (\<lambda>i. let w = df_tail window (take (Suc i) xs)
               in if length w < min_periods \<or> w = [] then NaN
                  else Fin (sum_list w / of_nat (length w)))
       [0..<length xs]"

definition set_ma_column :: "nat \<Rightarrow> pyfloat list \<Rightarrow> day_row list \<Rightarrow> day_row list" where
  "set_ma_column period col df = map (\<lambda>(r, v). r\<lparr>mas := (period, v) # mas r\<rparr>) (zip df col)"

definition calculate_ma :: "day_row list \<Rightarrow> nat list \<Rightarrow> day_row list" where
  "calculate_ma df ma_periods =
     fold (\<lambda>period df. set_ma_column period (rolling_mean period period (map close df)) df)
       ma_periods df"

definition ma_col :: "day_row \<Rightarrow> nat \<Rightarrow> error + pyfloat" where
  "ma_col row period =
     (case map_of (mas row) period of
        None \<Rightarrow> Inl (KeyError (''ma'' @ str_nat period))
      | Some v \<Rightarrow> Inr v)"

datatype box_result = Tuple2 bool pyfloat | Tuple3 bool pyfloat pyfloat

definition check_box_break :: "day_row list \<Rightarrow> string \<Rightarrow> nat \<Rightarrow> error + box_result" where
  "check_box_break df target_date box_days =
     (let df_target = df_tail box_days (filter (\<lambda>r. trade_date r < target_date) df) in
      if length df_target < box_days then Inr (Tuple2 False (Fin 0))
      else
        let box_upper = series_max (map close df_target) in
        case iloc0 (filter (\<lambda>r. trade_date r = target_date) df) of
          Inl e \<Rightarrow> Inl e
        | Inr target_row \<Rightarrow>
            let target_close = Fin (close target_row);
                is_break = pf_less (pf_mul box_upper (Fin (1005 / 1000))) target_close;
                break_ratio =
                  (if is_break
                   then pf_mul (pf_sub (pf_div target_close box_upper) (Fin 1)) (Fin 100)
                   else Fin 0)
            in Inr (Tuple3 is_break box_upper break_ratio))"

fun ma_values :: "day_row \<Rightarrow> nat list \<Rightarrow> error + pyfloat list" where
  "ma_values row [] = Inr []"
| "ma_values row (ma # rest) =
     (case ma_col row ma of
        Inl e \<Rightarrow> Inl e
      | Inr v \<Rightarrow> (case ma_values row rest of Inl e \<Rightarrow> Inl e | Inr vs \<Rightarrow> Inr (v # vs)))"

definition check_ma_break :: "day_row list \<Rightarrow> string \<Rightarrow> nat list \<Rightarrow> string \<Rightarrow> error + bool" where
  "check_ma_break stock_df target_date ma_list break_type =
     (case filter (\<lambda>r. trade_date r = target_date) stock_df of
        [] \<Rightarrow> Inr False
      | target_row # _ \<Rightarrow>
          (case ma_values target_row ma_list of
             Inl e \<Rightarrow> Inl e
           | Inr vs \<Rightarrow>
               if break_type = ''all'' then Inr (list_all (\<lambda>ma. pf_less ma (Fin (close target_row))) vs)
               else if break_type = ''any'' then Inr (list_ex (\<lambda>ma. pf_less ma (Fin (close target_row))) vs)
               else Inr False))"

definition get_prev_trade_date :: "day_row list \<Rightarrow> string \<Rightarrow> string option" where
  "get_prev_trade_date df target_date =
     (let trade_dates = map trade_date df in
      if target_date \<notin> set trade_dates then None
      else
        let target_idx = length (takeWhile (\<lambda>d. d \<noteq> target_date) trade_dates) in
        if 0 < target_idx then Some (trade_dates ! (target_idx - 1)) else None)"


fun any_isna :: "day_row \<Rightarrow> nat list \<Rightarrow> error + bool" where
  "any_isna row [] = Inr False"
| "any_isna row (ma # rest) =
     (case ma_col row ma of
        Inl e \<Rightarrow> Inl e
      | Inr v \<Rightarrow> if v = NaN then Inr True else any_isna row rest)"

record config =
  TARGET_DATE :: string
  BOX_DAYS :: nat
  VOLUME_GROWTH_RATIO :: rat
  TURNOVER_RATE_THRESHOLD :: rat
  MARKET_CAP_THRESHOLD :: rat
  CHIP_CONCENTRATION :: rat
  MA_LIST :: "nat list"
  BREAK_MA_TYPE :: string

definition default_config :: config where
  "default_config =
     \<lparr>TARGET_DATE = ''20251030'', BOX_DAYS = 20, VOLUME_GROWTH_RATIO = 3 / 2,
      TURNOVER_RATE_THRESHOLD = 10, MARKET_CAP_THRESHOLD = 100, CHIP_CONCENTRATION = 70,
      MA_LIST = [5, 10, 20], BREAK_MA_TYPE = ''all''\<rparr>"

record basic_row =
  ts_code :: string
  name :: string
  circulating_share :: "rat option"
  circulating_market_cap :: rat

record tdx_files =
  stock_basic :: "basic_row list option"
  day_files :: "string \<Rightarrow> byte list list"
  chip_files :: "string \<Rightarrow> byte list option"

definition a_share :: "string \<Rightarrow> bool" where
  "a_share code = (take 2 code = ''60'' \<or> take 2 code = ''00'' \<or> take 2 code = ''30'')"

definition get_stock_basic_info :: "tdx_files \<Rightarrow> error + basic_row list" where
  "get_stock_basic_info fs =
     (case stock_basic fs of
        None \<Rightarrow> Inl FileNotFoundError
      | Some df \<Rightarrow>
          Inr (map (\<lambda>r. r\<lparr>circulating_share := None,
                            circulating_market_cap := circulating_market_cap r / 10000\<rparr>)
                 (filter (\<lambda>r. a_share (ts_code r)) df)))"

record stock_data =
  day_df :: "day_row list"
  target_row :: day_row
  prev_date :: string
  target_close :: rat
  target_vol :: nat
  prev_vol :: nat
  target_amount :: rat
  cap :: rat
  stock_name :: string
  turnover_rate :: pyfloat

record selected =
  sel_ts_code :: string
  sel_name :: string
  sel_circulating_market_cap :: rat
  sel_close :: rat
  sel_ma5 :: "pyfloat option"
  sel_ma10 :: "pyfloat option"
  sel_ma20 :: "pyfloat option"
  sel_volume_growth_pct :: pyfloat
  sel_turnover_rate :: pyfloat
  sel_chip_concentration :: pyfloat
  sel_box_upper :: pyfloat
  sel_break_ratio :: pyfloat

definition extract_data :: "config \<Rightarrow> basic_row list \<Rightarrow> tdx_files \<Rightarrow> string \<Rightarrow> error + stock_data option" where
  "extract_data cfg basic_df fs code =
     (case day_files fs code of
        [] \<Rightarrow> Inr None
      | day_file # _ \<Rightarrow>
          let df0 = parse_tdx_day_file day_file in
          if TARGET_DATE cfg \<notin> set (map trade_date df0) then Inr None
          else
            case get_prev_trade_date df0 (TARGET_DATE cfg) of
              None \<Rightarrow> Inr None
            | Some prev \<Rightarrow>
                if prev = [] \<or> prev \<notin> set (map trade_date df0) then Inr None
                else
                  let df = calculate_ma df0 (MA_LIST cfg) in
                  case iloc0 (filter (\<lambda>r. trade_date r = TARGET_DATE cfg) df) of
                    Inl e \<Rightarrow> Inl e
                  | Inr trow \<Rightarrow>
                      (case any_isna trow (MA_LIST cfg) of
                         Inl e \<Rightarrow> Inl e
                       | Inr True \<Rightarrow> Inr None
                       | Inr False \<Rightarrow>
                           (case iloc0 (filter (\<lambda>r. trade_date r = prev) df) of
                              Inl e \<Rightarrow> Inl e
                            | Inr prow \<Rightarrow>
                                (case iloc0 (filter (\<lambda>r. ts_code r = code) basic_df) of
                                   Inl e \<Rightarrow> Inl e
                                 | Inr profile \<Rightarrow>
                                     (case circulating_share profile of
                                        None \<Rightarrow> Inl (KeyError ''circulating_share'')
                                      | Some cs \<Rightarrow>
                                          Inr (Some
                                            \<lparr>day_df = df, target_row = trow, prev_date = prev,
                                             target_close = close trow, target_vol = vol trow,
                                             prev_vol = vol prow, target_amount = amount trow,
                                             cap = circulating_market_cap profile,
                                             stock_name = name profile,
                                             turnover_rate =
                                               pf_div (Fin (of_nat (vol trow * 100))) (Fin cs)\<rparr>))))))"

definition report_ma :: "day_row \<Rightarrow> nat list \<Rightarrow> nat \<Rightarrow> pyfloat option" where
  "report_ma row ma_list period = (if period \<in> set ma_list then map_of (mas row) period else None)"

definition apply_conditions :: "config \<Rightarrow> tdx_files \<Rightarrow> string \<Rightarrow> stock_data \<Rightarrow> error + selected option" where
  "apply_conditions cfg fs code d =
     (let volume_growth = pf_div (Fin (of_nat (target_vol d))) (Fin (of_nat (prev_vol d))) in
      if pf_less volume_growth (Fin (VOLUME_GROWTH_RATIO cfg)) then Inr None
      else if pf_less (turnover_rate d) (Fin (TURNOVER_RATE_THRESHOLD cfg)) then Inr None
      else
        let chip_concentration = parse_tdx_chip_data (chip_files fs) code (TARGET_DATE cfg) in
        case chip_concentration of
          None \<Rightarrow> Inr None
        | Some chip \<Rightarrow>
            if \<not> truthy chip_concentration \<or> pf_less chip (Fin (CHIP_CONCENTRATION cfg)) then Inr None
            else
              case check_box_break (day_df d) (TARGET_DATE cfg) (BOX_DAYS cfg) of
                Inl e \<Rightarrow> Inl e
              | Inr (Tuple2 _ _) \<Rightarrow> Inl ValueError
              | Inr (Tuple3 is_box_break box_upper break_ratio) \<Rightarrow>
                  if \<not> is_box_break then Inr None
                  else
                    case check_ma_break (day_df d) (TARGET_DATE cfg) (MA_LIST cfg) (BREAK_MA_TYPE cfg) of
                      Inl e \<Rightarrow> Inl e
                    | Inr False \<Rightarrow> Inr None
                    | Inr True \<Rightarrow>
                        Inr (Some
                          \<lparr>sel_ts_code = code, sel_name = stock_name d,
                           sel_circulating_market_cap = cap d, sel_close = target_close d,
                           sel_ma5 = report_ma (target_row d) (MA_LIST cfg) 5,
                           sel_ma10 = report_ma (target_row d) (MA_LIST cfg) 10,
                           sel_ma20 = report_ma (target_row d) (MA_LIST cfg) 20,
                           sel_volume_growth_pct = pf_mul (pf_sub volume_growth (Fin 1)) (Fin 100),
                           sel_turnover_rate = turnover_rate d,
                           sel_chip_concentration = chip,
                           sel_box_upper = box_upper,
                           sel_break_ratio = break_ratio\<rparr>))"

definition process_stock :: "config \<Rightarrow> basic_row list \<Rightarrow> tdx_files \<Rightarrow> string \<Rightarrow> error + selected option" where
  "process_stock cfg basic_df fs code =
     (case extract_data cfg basic_df fs code of
        Inl e \<Rightarrow> Inl e
      | Inr None \<Rightarrow> Inr None
      | Inr (Some d) \<Rightarrow> apply_conditions cfg fs code d)"

fun scan :: "config \<Rightarrow> basic_row list \<Rightarrow> tdx_files \<Rightarrow> string list \<Rightarrow> error + selected list" where
  "scan cfg basic_df fs [] = Inr []"
| "scan cfg basic_df fs (code # codes) =
     (case process_stock cfg basic_df fs code of
        Inl e \<Rightarrow> Inl e
      | Inr None \<Rightarrow> scan cfg basic_df fs codes
      | Inr (Some r) \<Rightarrow>
          (case scan cfg basic_df fs codes of Inl e \<Rightarrow> Inl e | Inr rs \<Rightarrow> Inr (r # rs)))"

datatype run_result = LoadFailed error | NoCandidates | Selected "selected list"

definition stock_selection_tdx_auto :: "config \<Rightarrow> tdx_files \<Rightarrow> error + run_result" where
  "stock_selection_tdx_auto cfg fs =
     (case get_stock_basic_info fs of
        Inl e \<Rightarrow> Inr (LoadFailed e)
      | Inr df \<Rightarrow>
          let basic_df = filter (\<lambda>r. circulating_market_cap r \<le> MARKET_CAP_THRESHOLD cfg) df;
              ts_codes = map ts_code basic_df
          in if ts_codes = [] then Inr NoCandidates
             else (case scan cfg basic_df fs ts_codes of
                     Inl e \<Rightarrow> Inl e
                   | Inr final_selected \<Rightarrow> Inr (Selected final_selected)))"

datatype stage =
  CapFilter | SeriesAvailability | MaCompleteness | VolumeGrowth | TurnoverRate |
  Concentration | BoxBreakout | MaBreakout

definition stage_order :: "stage list" where
  "stage_order =
     [CapFilter, SeriesAvailability, MaCompleteness, VolumeGrowth, TurnoverRate, Concentration,
      BoxBreakout, MaBreakout]"

definition bind_err :: "error + 'a \<Rightarrow> ('a \<Rightarrow> error + 'b) \<Rightarrow> error + 'b" where
  "bind_err m f = (case m of Inl e \<Rightarrow> Inl e | Inr x \<Rightarrow> f x)"

definition decoded_series :: "tdx_files \<Rightarrow> string \<Rightarrow> error + day_row list" where
  "decoded_series fs code =
     (case day_files fs code of
        [] \<Rightarrow> Inl IndexError
      | day_file # _ \<Rightarrow> Inr (parse_tdx_day_file day_file))"

definition target_of :: "config \<Rightarrow> day_row list \<Rightarrow> error + day_row" where
  "target_of cfg df0 =
     iloc0 (filter (\<lambda>r. trade_date r = TARGET_DATE cfg) (calculate_ma df0 (MA_LIST cfg)))"

definition prev_of :: "config \<Rightarrow> day_row list \<Rightarrow> error + day_row" where
  "prev_of cfg df0 =
     (case get_prev_trade_date df0 (TARGET_DATE cfg) of
        None \<Rightarrow> Inl IndexError
      | Some prev \<Rightarrow> iloc0 (filter (\<lambda>r. trade_date r = prev) (calculate_ma df0 (MA_LIST cfg))))"

fun run_stage :: "stage \<Rightarrow> config \<Rightarrow> tdx_files \<Rightarrow> basic_row \<Rightarrow> error + bool" where
  "run_stage CapFilter cfg fs p = Inr (circulating_market_cap p \<le> MARKET_CAP_THRESHOLD cfg)"
| "run_stage SeriesAvailability cfg fs p =
     (case day_files fs (ts_code p) of
        [] \<Rightarrow> Inr False
      | day_file # _ \<Rightarrow>
          let df0 = parse_tdx_day_file day_file in
          if TARGET_DATE cfg \<notin> set (map trade_date df0) then Inr False
          else
            case get_prev_trade_date df0 (TARGET_DATE cfg) of
              None \<Rightarrow> Inr False
            | Some prev \<Rightarrow> Inr (\<not> (prev = [] \<or> prev \<notin> set (map trade_date df0))))"
| "run_stage MaCompleteness cfg fs p =
     bind_err (decoded_series fs (ts_code p)) (\<lambda>df0.
     bind_err (target_of cfg df0) (\<lambda>trow.
     bind_err (any_isna trow (MA_LIST cfg)) (\<lambda>b. Inr (\<not> b))))"
| "run_stage VolumeGrowth cfg fs p =
     bind_err (decoded_series fs (ts_code p)) (\<lambda>df0.
     bind_err (target_of cfg df0) (\<lambda>trow.
     bind_err (prev_of cfg df0) (\<lambda>prow.
       Inr (\<not> pf_less (pf_div (Fin (of_nat (vol trow))) (Fin (of_nat (vol prow))))
                 (Fin (VOLUME_GROWTH_RATIO cfg))))))"
| "run_stage TurnoverRate cfg fs p =
     bind_err (decoded_series fs (ts_code p)) (\<lambda>df0.
     bind_err (target_of cfg df0) (\<lambda>trow.
       case circulating_share p of
         None \<Rightarrow> Inl (KeyError ''circulating_share'')
       | Some cs \<Rightarrow>
           Inr (\<not> pf_less (pf_div (Fin (of_nat (vol trow * 100))) (Fin cs))
                     (Fin (TURNOVER_RATE_THRESHOLD cfg)))))"
| "run_stage Concentration cfg fs p =
     (let chip_concentration = parse_tdx_chip_data (chip_files fs) (ts_code p) (TARGET_DATE cfg) in
      case chip_concentration of
        None \<Rightarrow> Inr False
      | Some chip \<Rightarrow>
          Inr (\<not> (\<not> truthy chip_concentration \<or> pf_less chip (Fin (CHIP_CONCENTRATION cfg)))))"
| "run_stage BoxBreakout cfg fs p =
     bind_err (decoded_series fs (ts_code p)) (\<lambda>df0.
       case check_box_break (calculate_ma df0 (MA_LIST cfg)) (TARGET_DATE cfg) (BOX_DAYS cfg) of
         Inl e \<Rightarrow> Inl e
       | Inr (Tuple2 _ _) \<Rightarrow> Inl ValueError
       | Inr (Tuple3 is_box_break _ _) \<Rightarrow> Inr is_box_break)"
| "run_stage MaBreakout cfg fs p =
     bind_err (decoded_series fs (ts_code p)) (\<lambda>df0.
       check_ma_break (calculate_ma df0 (MA_LIST cfg)) (TARGET_DATE cfg) (MA_LIST cfg)
         (BREAK_MA_TYPE cfg))"

fun run_stages :: "stage list \<Rightarrow> config \<Rightarrow> tdx_files \<Rightarrow> basic_row \<Rightarrow> error + bool" where
  "run_stages [] cfg fs p = Inr True"
| "run_stages (s # ss) cfg fs p =
     (case run_stage s cfg fs p of
        Inl e \<Rightarrow> Inl e
      | Inr False \<Rightarrow> Inr False
      | Inr True \<Rightarrow> run_stages ss cfg fs p)"

fun staged_scan :: "stage list \<Rightarrow> config \<Rightarrow> tdx_files \<Rightarrow> basic_row list \<Rightarrow> error + string list" where
  "staged_scan order cfg fs [] = Inr []"
| "staged_scan order cfg fs (p # ps) =
     (case run_stages order cfg fs p of
        Inl e \<Rightarrow> Inl e
      | Inr b \<Rightarrow>
          (case staged_scan order cfg fs ps of
             Inl e \<Rightarrow> Inl e
           | Inr members \<Rightarrow> Inr (if b then ts_code p # members else members)))"

definition pack_I :: "nat \<Rightarrow> byte list" where
  "pack_I n = [of_nat n, of_nat (n div 256), of_nat (n div 65536), of_nat (n div 16777216)]"

definition pack_f :: "bool \<Rightarrow> nat \<Rightarrow> nat \<Rightarrow> byte list" where
  "pack_f negative e m = pack_I ((if negative then 2 ^ 31 else 0) + e * 2 ^ 23 + m)"


definition encode_day_ints ::
  "nat \<Rightarrow> nat \<Rightarrow> nat \<Rightarrow> nat \<Rightarrow> nat \<Rightarrow> nat \<Rightarrow> nat \<Rightarrow> byte list \<Rightarrow> byte list" where
  "encode_day_ints date o100 h100 l100 c100 volume a100 reserved =
     pack_I date @ pack_I o100 @ pack_I h100 @ pack_I l100 @ pack_I c100 @ pack_I volume @
     pack_I a100 @ reserved"


definition encode_chip_record ::
  "nat \<Rightarrow> byte list \<Rightarrow> bool \<Rightarrow> nat \<Rightarrow> nat \<Rightarrow> byte list \<Rightarrow> byte list" where
  "encode_chip_record date reserved1 negative e m reserved2 =
     pack_I date @ reserved1 @ pack_f negative e m @ reserved2"

definition bar :: "string \<Rightarrow> rat \<Rightarrow> nat \<Rightarrow> day_row" where
  "bar d c v =
     \<lparr>trade_date = d, open_p = c, high = c, low = c, close = c, vol = v, amount = 0, mas = []\<rparr>"

definition window_dates :: "string list" where
  "window_dates =
     [''20250924'', ''20250925'', ''20250926'', ''20250929'', ''20250930'', ''20251009'',
      ''20251010'', ''20251013'', ''20251014'', ''20251015'', ''20251016'', ''20251017'',
      ''20251020'', ''20251021'', ''20251022'', ''20251023'', ''20251024'', ''20251027'',
      ''20251028'', ''20251029'']"

definition encode_bar :: "nat \<Rightarrow> nat \<Rightarrow> nat \<Rightarrow> byte list" where
  "encode_bar date c100 v = encode_day_ints date c100 c100 c100 c100 v 0 [0, 0, 0, 0]"

definition day_file_of :: "(nat \<times> nat \<times> nat) list \<Rightarrow> byte list" where
  "day_file_of bars = concat (map (\<lambda>(date, c100, v). encode_bar date c100 v) bars)"

definition chip_file_of :: "nat \<Rightarrow> bool \<Rightarrow> nat \<Rightarrow> nat \<Rightarrow> byte list" where
  "chip_file_of date negative e m =
     encode_chip_record date (replicate 20 0) negative e m (replicate 20 0)"

definition small_config :: config where
  "small_config = default_config\<lparr>BOX_DAYS := 2, MA_LIST := [2]\<rparr>"

definition example_profile :: basic_row where
  "example_profile =
     \<lparr>ts_code = ''600000'', name = ''PF Bank'', circulating_share = Some 10000,
      circulating_market_cap = 50\<rparr>"

definition example_bars :: "(nat \<times> nat \<times> nat) list" where
  "example_bars =
     [(20251027, 1000, 1000), (20251028, 1000, 1000), (20251029, 1000, 1000),
      (20251030, 1010, 2000)]"

definition example_files :: "byte list option \<Rightarrow> tdx_files" where
  "example_files chip =
     \<lparr>stock_basic = Some [example_profile\<lparr>circulating_market_cap := 500000\<rparr>],
      day_files = (\<lambda>code. if code = ''600000'' then [day_file_of example_bars] else []),
      chip_files = (\<lambda>code. if code = ''600000'' then chip else None)\<rparr>"

definition short_history :: "(nat \<times> nat \<times> nat) list" where
  "short_history =
     map (\<lambda>date. (date, 1000, 1000))
       [20250925, 20250926, 20250929, 20250930, 20251009, 20251010, 20251013, 20251014,
        20251015, 20251016, 20251017, 20251020, 20251021, 20251022, 20251023, 20251024,
        20251027, 20251028, 20251029] @
     [(20251030, 1010, 2000)]"

definition short_history_files :: tdx_files where
  "short_history_files =
     \<lparr>stock_basic = Some [example_profile\<lparr>circulating_market_cap := 500000\<rparr>],
      day_files = (\<lambda>code. if code = ''600000'' then [day_file_of short_history] else []),
      chip_files =
        (\<lambda>code. if code = ''600000'' then Some (chip_file_of 20251030 False 133 786432)
                else None)\<rparr>"

definition box_first_order :: "stage list" where
  "box_first_order =
     [CapFilter, BoxBreakout, SeriesAvailability, MaCompleteness, VolumeGrowth, TurnoverRate,
      Concentration, MaBreakout]"

definition late_swap_order :: "stage list" where
  "late_swap_order =
     [CapFilter, SeriesAvailability, MaCompleteness, TurnoverRate, VolumeGrowth, Concentration,
      MaBreakout, BoxBreakout]"

definition suspended_profile :: basic_row where
  "suspended_profile =
     \<lparr>ts_code = ''600001'', name = ''Suspended'', circulating_share = Some 10000,
      circulating_market_cap = 50\<rparr>"

definition two_instrument_files :: tdx_files where
  "two_instrument_files =
     \<lparr>stock_basic = None,
      day_files =
        (\<lambda>code. if code = ''600000'' then [day_file_of example_bars]
                else if code = ''600001'' then [day_file_of (butlast example_bars)]
                else []),
      chip_files =
        (\<lambda>code. if code = ''600000'' then Some (chip_file_of 20251030 False 133 786432)
                else None)\<rparr>"

definition chunks :: "nat \<Rightarrow> byte list \<Rightarrow> byte list list" where
  "chunks n f = map (\<lambda>k. slice f (n * k) (n * k + n)) [0..<length f div n]"

section \<open>Properties of the decoders\<close>

lemma read_records_chunks: "0 < n \<Longrightarrow> read_records n f = chunks n f"
proof (induction n f rule: read_records.induct)
  case (1 n f)
  show ?case
  proof (cases "length f < n")
    case True
    then have d: "drop n f = []" and t: "take n f = f" by simp_all
    have e: "read_records n [] = []" by (simp add: read_records.simps)
    from True have z: "length f div n = 0" by simp
    show ?thesis
      using True by (subst read_records.simps) (simp add: t d e chunks_def z Let_def)
  next
    case False
    then have len: "length (take n f) = n" by simp
    with \<open>0 < n\<close> have ne: "take n f \<noteq> []" by auto
    have ih: "read_records n (drop n f) = chunks n (drop n f)"
      using "1.IH"(2)[OF refl ne _ \<open>0 < n\<close>] len by simp
    have dv: "length f div n = Suc ((length f - n) div n)"
      using False \<open>0 < n\<close> by (simp add: le_div_geq)
    have "chunks n f = take n f # chunks n (drop n f)"
      unfolding chunks_def dv
      by (simp add: upt_conv_Cons map_Suc_upt [symmetric] slice_def del: upt_Suc, simp add: ac_simps)
    moreover have "f \<noteq> []" using ne by auto
    moreover have "min (length f) n = n" using False by simp
    ultimately show ?thesis
      using \<open>0 < n\<close> by (subst read_records.simps) (simp add: Let_def ih)
  qed
qed

lemma length_chunks: "length (chunks n f) = length f div n"
  by (simp add: chunks_def)

lemma chunks_take_whole:
  assumes "0 < n"
  shows "chunks n (take (n * (length f div n)) f) = chunks n f"
proof -
  let ?q = "length f div n"
  have le: "n * ?q \<le> length f" by simp
  then have len: "length (take (n * ?q) f) = n * ?q" by simp
  have q: "length (take (n * ?q) f) div n = ?q" using assms by (simp add: len del: length_take)
  have "slice (take (n * ?q) f) (n * k) (n * k + n) = slice f (n * k) (n * k + n)" if "k < ?q" for k
  proof -
    from that have "Suc k \<le> ?q" by simp
    then have "n * Suc k \<le> n * ?q" by (rule mult_le_mono2)
    then have "n \<le> n * ?q - n * k" by simp
    then show ?thesis by (simp add: slice_def drop_take min_def)
  qed
  then show ?thesis unfolding chunks_def q by simp
qed

text \<open>
  Claim C6. A byte stream whose length is not a multiple of the record width (32 bytes for
  daily bars, 48 bytes for concentration samples) decodes to exactly its
  \<open>length div width\<close> complete leading records: the read loop yields the leading
  chunks, the decoders decode exactly those, and the trailing partial chunk contributes
  nothing (decoding the stream and decoding its whole-record prefix agree).
\<close>

theorem truncated_tail_dropped:
  "(length f mod 32 \<noteq> 0 \<longrightarrow>
      read_records 32 f = chunks 32 f \<and>
      day_data f = map day_record (chunks 32 f) \<and>
      mset (parse_tdx_day_file f) = mset (map day_record (chunks 32 f)) \<and>
      length (parse_tdx_day_file f) = length f div 32 \<and>
      parse_tdx_day_file f = parse_tdx_day_file (take (32 * (length f div 32)) f)) \<and>
   (length g mod 48 \<noteq> 0 \<longrightarrow>
      read_records 48 g = chunks 48 g \<and>
      chip_data g = map chip_record (chunks 48 g) \<and>
      length (chip_data g) = length g div 48 \<and>
      chip_data g = chip_data (take (48 * (length g div 48)) g))"
proof -
  have d: "read_records 32 h = chunks 32 h" and c: "read_records 48 h = chunks 48 h" for h
    by (simp_all add: read_records_chunks)
  have t32: "chunks 32 (take (32 * (length f div 32)) f) = chunks 32 f"
    by (rule chunks_take_whole) simp
  have t48: "chunks 48 (take (48 * (length g div 48)) g) = chunks 48 g"
    by (rule chunks_take_whole) simp
  show ?thesis
    by (simp add: d c day_data_def chip_data_def parse_tdx_day_file_def length_chunks t32 t48)
qed

lemma str_nat_0: "str_nat 0 = ''0''"
  by (simp add: str_nat.simps digit_char_def)

theorem truncated_tail_dropped_witness:
  "length (replicate 40 (0 :: byte)) mod 32 \<noteq> 0 \<and>
   parse_tdx_day_file (replicate 40 0) =
     [\<lparr>trade_date = ''0'', open_p = 0, high = 0, low = 0, close = 0, vol = 0, amount = 0, mas = []\<rparr>] \<and>
   length (replicate 50 (0 :: byte)) mod 48 \<noteq> 0 \<and>
   chip_data (replicate 50 0) = [\<lparr>chip_trade_date = ''0'', chip_concentration_70 = Fin 0\<rparr>]"
proof -
  have r32: "slice (replicate 40 (0::byte)) 0 32 = replicate 32 0"
    by (simp add: slice_def)
  have r48: "slice (replicate 50 (0::byte)) 0 48 = replicate 48 0"
    by (simp add: slice_def)
  have r4: "replicate 4 (0::byte) = [0, 0, 0, 0]" by (simp add: numeral_eq_Suc)
  have u: "unpack_I (replicate 4 0) = 0" unfolding r4 by (simp add: unpack_I_def)
  have s: "slice (replicate 32 (0::byte)) i j = replicate (min (j - i) (32 - i)) 0"
          "slice (replicate 48 (0::byte)) i j = replicate (min (j - i) (48 - i)) 0" for i j
    by (simp_all add: slice_def min.commute)
  have uf: "unpack_f (replicate 4 0) = Fin 0" by (simp add: unpack_f_def f32_value_def u)
  have dr: "day_record (replicate 32 0) =
     \<lparr>trade_date = ''0'', open_p = 0, high = 0, low = 0, close = 0, vol = 0, amount = 0, mas = []\<rparr>"
    by (simp add: day_record_def s u str_nat_0)
  have cr: "chip_record (replicate 48 0) = \<lparr>chip_trade_date = ''0'', chip_concentration_70 = Fin 0\<rparr>"
    by (simp add: chip_record_def s u uf str_nat_0)
  have c32: "chunks 32 (replicate 40 (0::byte)) = [replicate 32 0]"
    by (simp add: chunks_def r32)
  have c48: "chunks 48 (replicate 50 (0::byte)) = [replicate 48 0]"
    by (simp add: chunks_def r48)
  show ?thesis
    using truncated_tail_dropped [of "replicate 40 0" "replicate 50 0"]
    by (simp add: c32 c48 dr cr parse_tdx_day_file_def)
qed

lemma length_pack_I: "length (pack_I n) = 4"
  by (simp add: pack_I_def)

lemma unpack_pack_I:
  assumes "n < 2 ^ 32"
  shows "unpack_I (pack_I n) = n"
proof -
  define a where "a = n div 256"
  define b where "b = a div 256"
  define c where "c = b div 256"
  have n: "n = n mod 256 + 256 * a" by (simp add: a_def)
  have a: "a = a mod 256 + 256 * b" by (simp add: b_def)
  have b: "b = b mod 256 + 256 * c" by (simp add: c_def)
  have d2: "n div 65536 = b" by (simp add: a_def b_def div_mult2_eq)
  have d3: "n div 16777216 = c" by (simp add: a_def b_def c_def div_mult2_eq)
  have "c < 256" using assms unfolding d3 [symmetric] by simp
  then have c: "c mod 256 = c" by simp
  have "unpack_I (pack_I n) = n mod 256 + 256 * (a mod 256 + 256 * (b mod 256 + 256 * c))"
    by (simp add: unpack_I_def pack_I_def unat_of_nat d2 d3 c a_def [symmetric])
  also have "\<dots> = n" using n a b by presburger
  finally show ?thesis .
qed

lemma f32_fields:
  fixes e m :: nat
  assumes "e < 256" "m < 2 ^ 23"
  shows "((if s then 2 ^ 31 else 0) + e * 2 ^ 23 + m) < (2::nat) ^ 32"
    and "(((if s then 2 ^ 31 else 0) + e * 2 ^ 23 + m) div 2 ^ 31 \<noteq> (0::nat)) = s"
    and "(((if s then 2 ^ 31 else 0) + e * 2 ^ 23 + m) div 2 ^ 23) mod 256 = e"
    and "((if s then 2 ^ 31 else 0) + e * 2 ^ 23 + m) mod 2 ^ 23 = m"
proof -
  define K :: nat where "K = 8388608"
  define h :: nat where "h = (if s then 256 else 0)"
  have K: "0 < K" "m < K" using assms by (simp_all add: K_def)
  have r: "(if s then 2 ^ 31 else 0) + e * 2 ^ 23 + m = m + (h + e) * K"
    by (simp add: K_def h_def)
  have p: "(2::nat) ^ 23 = K" by (simp add: K_def)
  show "((if s then 2 ^ 31 else 0) + e * 2 ^ 23 + m) < (2::nat) ^ 32"
    using assms by (auto split: if_splits)
  show "(((if s then 2 ^ 31 else 0) + e * 2 ^ 23 + m) div 2 ^ 31 \<noteq> (0::nat)) = s"
    using assms by (auto split: if_splits)
  have "(m + (h + e) * K) div K = h + e"
    using K by simp
  moreover have "(h + e) mod 256 = e"
    using assms by (simp add: h_def)
  ultimately show "(((if s then 2 ^ 31 else 0) + e * 2 ^ 23 + m) div 2 ^ 23) mod 256 = e"
    by (simp only: r, simp only: p)
  have "(m + (h + e) * K) mod K = m"
    using K by simp
  then show "((if s then 2 ^ 31 else 0) + e * 2 ^ 23 + m) mod 2 ^ 23 = m"
    by (simp only: r, simp only: p)
qed

lemma unpack_pack_f:
  "e < 256 \<Longrightarrow> m < 2 ^ 23 \<Longrightarrow> unpack_f (pack_f s e m) = f32_value s e m"
  unfolding unpack_f_def pack_f_def
  by (simp only: unpack_pack_I f32_fields Let_def)

lemma length_encode_day_ints:
  "length reserved = 4 \<Longrightarrow> length (encode_day_ints d o100 h100 l100 c100 v a100 reserved) = 32"
  by (simp add: encode_day_ints_def length_pack_I)

lemma day_record_encode_ints:
  assumes "d < 2 ^ 32" "o100 < 2 ^ 32" "h100 < 2 ^ 32" "l100 < 2 ^ 32" "c100 < 2 ^ 32"
    "v < 2 ^ 32" "a100 < 2 ^ 32"
  shows "day_record (encode_day_ints d o100 h100 l100 c100 v a100 reserved) =
    \<lparr>trade_date = str_nat d, open_p = of_nat o100 / 100, high = of_nat h100 / 100,
     low = of_nat l100 / 100, close = of_nat c100 / 100, vol = v, amount = of_nat a100 / 100,
     mas = []\<rparr>"
  using assms
  by (simp add: day_record_def encode_day_ints_def slice_def length_pack_I unpack_pack_I)

lemma length_encode_chip_record:
  "length r1 = 20 \<Longrightarrow> length r2 = 20 \<Longrightarrow> length (encode_chip_record d r1 s e m r2) = 48"
  by (simp add: encode_chip_record_def pack_f_def length_pack_I)

lemma chip_record_encode:
  assumes "d < 2 ^ 32" "e < 256" "m < 2 ^ 23" "length r1 = 20"
  shows "chip_record (encode_chip_record d r1 s e m r2) =
    \<lparr>chip_trade_date = str_nat d, chip_concentration_70 = f32_value s e m\<rparr>"
proof -
  have l: "length (pack_f s e m) = 4" by (simp add: pack_f_def length_pack_I)
  show ?thesis
    using assms
    by (simp add: chip_record_def encode_chip_record_def slice_def length_pack_I l
        unpack_pack_I unpack_pack_f)
qed

lemma read_records_concat:
  assumes "0 < n" "\<forall>x\<in>set xs. length x = n" "length t < n"
  shows "read_records n (concat xs @ t) = xs"
  using assms(2)
proof (induction xs)
  case Nil
  have "read_records n [] = []" by (simp add: read_records.simps)
  moreover have "read_records n t = read_records n []" if "t \<noteq> []"
    using that assms by (subst read_records.simps) (simp add: Let_def)
  ultimately show ?case by (cases "t = []") simp_all
next
  case (Cons x xs)
  then have x: "length x = n" "x \<noteq> []" using assms(1) by auto
  show ?case
    using Cons x by (subst read_records.simps) (simp add: Let_def)
qed




lemma chip_single:
  assumes "length rec = 48"
  shows "chip_data rec = [chip_record rec]"
proof -
  have "read_records 48 (concat [rec] @ []) = [rec]"
    by (rule read_records_concat) (simp_all add: assms)
  then show ?thesis by (simp add: chip_data_def)
qed





lemma day_data_chunks: "day_data f = map day_record (chunks 32 f)"
  by (simp add: day_data_def read_records_chunks)

text \<open>
  Claim C2, as amended. The daily-bar decoder does not de-duplicate, but it does re-sort: the
  returned records are a permutation of the complete records of the file, in ascending order
  of the decimal date string; the returned order is the file order whenever the file is
  already in strictly ascending date order.
\<close>

theorem day_decoder_sorts_without_dedup:
  "mset (parse_tdx_day_file f) = mset (map day_record (chunks 32 f)) \<and>
   sorted (map trade_date (parse_tdx_day_file f)) \<and>
   (sorted_wrt (<) (map trade_date (map day_record (chunks 32 f))) \<longrightarrow>
      parse_tdx_day_file f = map day_record (chunks 32 f))"
proof (intro conjI impI)
  show "mset (parse_tdx_day_file f) = mset (map day_record (chunks 32 f))"
    by (simp add: parse_tdx_day_file_def day_data_chunks)
  show "sorted (map trade_date (parse_tdx_day_file f))"
    by (simp add: parse_tdx_day_file_def)
  assume "sorted_wrt (<) (map trade_date (map day_record (chunks 32 f)))"
  then have "sorted (map trade_date (day_data f))"
    unfolding day_data_chunks by (rule strict_sorted_imp_sorted)
  then show "parse_tdx_day_file f = map day_record (chunks 32 f)"
    unfolding parse_tdx_day_file_def day_data_chunks [symmetric]
    by (rule sort_key_id_if_sorted)
qed

lemma upt_0_2: "[0..<2] = [0, 1]"
  by (simp add: upt_rec)

text \<open>
  Claim C2 as stated fails: a file holding the bar of 2025-10-30 before the bar of 2025-10-29
  is returned with the two bars exchanged.
\<close>

theorem day_decoder_input_order_counterexample:
  "(let f = [150, 1, 53, 1, 232, 3, 0, 0, 232, 3, 0, 0, 232, 3, 0, 0, 232, 3, 0, 0,
             1, 0, 0, 0, 232, 3, 0, 0, 0, 0, 0, 0,
             149, 1, 53, 1, 232, 3, 0, 0, 232, 3, 0, 0, 232, 3, 0, 0, 232, 3, 0, 0,
             1, 0, 0, 0, 232, 3, 0, 0, 0, 0, 0, 0]
    in map trade_date (map day_record (chunks 32 f)) = [''20251030'', ''20251029''] \<and>
       map trade_date (parse_tdx_day_file f) = [''20251029'', ''20251030''])"
  by (simp add: Let_def parse_tdx_day_file_def day_data_chunks chunks_def slice_def upt_0_2
      day_record_def unpack_I_def str_nat.simps digit_char_def)

theorem day_decoder_sorts_without_dedup_witness:
  "(let f = [149, 1, 53, 1, 232, 3, 0, 0, 232, 3, 0, 0, 232, 3, 0, 0, 232, 3, 0, 0,
             1, 0, 0, 0, 232, 3, 0, 0, 0, 0, 0, 0,
             150, 1, 53, 1, 232, 3, 0, 0, 232, 3, 0, 0, 232, 3, 0, 0, 232, 3, 0, 0,
             1, 0, 0, 0, 232, 3, 0, 0, 0, 0, 0, 0]
    in sorted_wrt (<) (map trade_date (map day_record (chunks 32 f))) \<and>
       map trade_date (parse_tdx_day_file f) = [''20251029'', ''20251030''])"
proof -
  let ?f = "[149, 1, 53, 1, 232, 3, 0, 0, 232, 3, 0, 0, 232, 3, 0, 0, 232, 3, 0, 0,
             1, 0, 0, 0, 232, 3, 0, 0, 0, 0, 0, 0,
             150, 1, 53, 1, 232, 3, 0, 0, 232, 3, 0, 0, 232, 3, 0, 0, 232, 3, 0, 0,
             1, 0, 0, 0, 232, 3, 0, 0, 0, 0, 0, 0] :: byte list"
  have d: "map trade_date (map day_record (chunks 32 ?f)) = [''20251029'', ''20251030'']"
    by (simp add: chunks_def slice_def upt_0_2 day_record_def unpack_I_def str_nat.simps
        digit_char_def)
  have s: "sorted_wrt (<) (map trade_date (map day_record (chunks 32 ?f)))"
    unfolding d by simp
  from day_decoder_sorts_without_dedup [of ?f] s
  have "parse_tdx_day_file ?f = map day_record (chunks 32 ?f)" by blast
  with s d show ?thesis by (simp only: Let_def)
qed

lemma sum_list_drop_take:
  fixes xs :: "rat list"
  assumes "b \<le> length xs" "a \<le> b"
  shows "sum_list (drop a (take b xs)) = (\<Sum>j = a..<b. xs ! j)"
proof -
  have "sum_list (drop a (take b xs)) = (\<Sum>k = 0..<b - a. drop a (take b xs) ! k)"
    using assms by (simp add: sum_list_sum_nth)
  also have "\<dots> = (\<Sum>k = 0..<b - a. xs ! (k + a))"
    using assms by (intro sum.cong) (simp_all add: add.commute)
  also have "\<dots> = (\<Sum>j = 0 + a..<(b - a) + a. xs ! j)"
    by (rule sum.shift_bounds_nat_ivl [symmetric])
  finally show ?thesis using assms by simp
qed

lemma rolling_mean_nth:
  assumes "0 < P" "i < length xs"
  shows "rolling_mean P P xs ! i =
    (if i < P - 1 then NaN else Fin ((\<Sum>j = i + 1 - P..i. xs ! j) / of_nat P))"
proof -
  let ?w = "df_tail P (take (Suc i) xs)"
  have lt: "length (take (Suc i) xs) = Suc i"
    using assms by simp
  have w: "?w = drop (Suc i - P) (take (Suc i) xs)"
    by (simp only: df_tail_def lt)
  have len: "length ?w = min P (Suc i)"
    unfolding w by (simp only: length_drop lt)
  have nth: "rolling_mean P P xs ! i =
    (if length ?w < P \<or> ?w = [] then NaN else Fin (sum_list ?w / of_nat (length ?w)))"
    using assms by (simp add: rolling_mean_def Let_def)
  show ?thesis
  proof (cases "i < P - 1")
    case True
    then have "length ?w < P" unfolding len by simp
    with True show ?thesis by (simp only: nth) simp
  next
    case False
    then have l: "length ?w = P" unfolding len using assms by simp
    then have ne: "?w \<noteq> []" using assms by auto
    have "sum_list ?w = (\<Sum>j = Suc i - P..<Suc i. xs ! j)"
      unfolding w using assms by (intro sum_list_drop_take) simp_all
    also have "\<dots> = (\<Sum>j = i + 1 - P..i. xs ! j)"
      by (simp add: atLeastLessThanSuc_atLeastAtMost)
    finally have "sum_list ?w = (\<Sum>j = i + 1 - P..i. xs ! j)" .
    with False l ne show ?thesis by (simp only: nth) simp
  qed
qed

lemma length_rolling_mean: "length (rolling_mean w m xs) = length xs"
  by (simp add: rolling_mean_def)

lemma set_ma_column_nth:
  assumes "length col = length df" "i < length df"
  shows "set_ma_column p col df ! i = (df ! i)\<lparr>mas := (p, col ! i) # mas (df ! i)\<rparr>"
  using assms by (simp add: set_ma_column_def)

lemma length_set_ma_column:
  "length col = length df \<Longrightarrow> length (set_ma_column p col df) = length df"
  by (simp add: set_ma_column_def)

lemma calculate_ma_snoc:
  "calculate_ma df (ps @ [p]) =
     set_ma_column p (rolling_mean p p (map close (calculate_ma df ps))) (calculate_ma df ps)"
  by (simp add: calculate_ma_def)

lemma calculate_ma_nth:
  "length (calculate_ma df ps) = length df \<and>
   (\<forall>i<length df. calculate_ma df ps ! i =
      (df ! i)\<lparr>mas := map (\<lambda>p. (p, rolling_mean p p (map close df) ! i)) (rev ps) @ mas (df ! i)\<rparr>)"
proof (induction ps rule: rev_induct)
  case Nil
  show ?case by (simp add: calculate_ma_def)
next
  case (snoc p ps)
  let ?d = "calculate_ma df ps"
  let ?col = "rolling_mean p p (map close ?d)"
  from snoc have len: "length ?d = length df" by simp
  have cl: "map close ?d = map close df"
  proof (rule nth_equalityI)
    show "length (map close ?d) = length (map close df)" using len by simp
    fix i assume "i < length (map close ?d)"
    then have "i < length df" using len by simp
    with snoc len show "map close ?d ! i = map close df ! i" by simp
  qed
  have lc: "length ?col = length ?d" by (simp add: length_rolling_mean)
  have "length (calculate_ma df (ps @ [p])) = length df"
    unfolding calculate_ma_snoc using lc len by (simp add: length_set_ma_column)
  moreover have "calculate_ma df (ps @ [p]) ! i =
      (df ! i)\<lparr>mas := map (\<lambda>p. (p, rolling_mean p p (map close df) ! i)) (rev (ps @ [p])) @ mas (df ! i)\<rparr>"
    if "i < length df" for i
  proof -
    have "calculate_ma df (ps @ [p]) ! i = (?d ! i)\<lparr>mas := (p, ?col ! i) # mas (?d ! i)\<rparr>"
      unfolding calculate_ma_snoc using that len lc by (intro set_ma_column_nth) simp_all
    with snoc that show ?thesis by (simp add: cl)
  qed
  ultimately show ?case by blast
qed

lemma map_of_computed:
  "p \<in> set ps \<Longrightarrow> map_of (map (\<lambda>p. (p, g p)) ps @ old) p = Some (g p)"
  by (induction ps) auto

lemma ma_col_calculate_ma:
  assumes "P \<in> set ps" "i < length df"
  shows "ma_col (calculate_ma df ps ! i) P = Inr (rolling_mean P P (map close df) ! i)"
proof -
  have "mas (calculate_ma df ps ! i) =
    map (\<lambda>p. (p, rolling_mean p p (map close df) ! i)) (rev ps) @ mas (df ! i)"
    using calculate_ma_nth [of df ps] assms(2) by simp
  moreover have "P \<in> set (rev ps)" using assms(1) by simp
  ultimately have "map_of (mas (calculate_ma df ps ! i)) P = Some (rolling_mean P P (map close df) ! i)"
    by (simp only: map_of_computed)
  then show ?thesis by (simp add: ma_col_def)
qed

text \<open>
  Claim C5. For every series and every period \<open>P\<close> among the requested periods, the
  moving-average column is undefined (NaN) at every index \<open>i < P - 1\<close> and equals the
  arithmetic mean of the closes at indices \<open>i - P + 1\<close> to \<open>i\<close> from index
  \<open>P - 1\<close> on. Five closes of 10 with period 5 give NaN at indices 0 to 3 and 10 at
  index 4.
\<close>

theorem moving_average_defined_from_period:
  assumes "0 < P" and "P \<in> set ma_periods" and "i < length df"
  shows "ma_col (calculate_ma df ma_periods ! i) P =
    Inr (if i < P - 1 then NaN
         else Fin ((\<Sum>j = i + 1 - P..i. close (df ! j)) / of_nat P))"
proof -
  have "rolling_mean P P (map close df) ! i =
    (if i < P - 1 then NaN else Fin ((\<Sum>j = i + 1 - P..i. map close df ! j) / of_nat P))"
    using assms by (intro rolling_mean_nth) simp_all
  moreover have "(\<Sum>j = i + 1 - P..i. map close df ! j) = (\<Sum>j = i + 1 - P..i. close (df ! j))"
    using assms(3) by (intro sum.cong) simp_all
  ultimately show ?thesis
    using ma_col_calculate_ma [OF assms(2,3)] by simp
qed

theorem moving_average_defined_from_period_witness:
  "map (\<lambda>i. ma_col (calculate_ma [bar ''1'' 10 0, bar ''2'' 10 0, bar ''3'' 10 0, bar ''4'' 10 0,
                                    bar ''5'' 10 0] [5] ! i) 5) [0, 1, 2, 3, 4] =
   [Inr NaN, Inr NaN, Inr NaN, Inr NaN, Inr (Fin 10)]"
proof -
  let ?df = "[bar ''1'' 10 0, bar ''2'' 10 0, bar ''3'' 10 0, bar ''4'' 10 0, bar ''5'' 10 0]"
  have s: "{0..4::nat} = {0, 1, 2, 3, 4}" by auto
  have c: "close (bar d c v) = c" for d c v by (simp add: bar_def)
  show ?thesis
    using moving_average_defined_from_period [of 5 "[5]" 0 ?df]
      moving_average_defined_from_period [of 5 "[5]" 1 ?df]
      moving_average_defined_from_period [of 5 "[5]" 2 ?df]
      moving_average_defined_from_period [of 5 "[5]" 3 ?df]
      moving_average_defined_from_period [of 5 "[5]" 4 ?df]
    by (simp add: s c)
qed










lemma day_record_encode_bar:
  assumes "date < 2 ^ 32" "c100 < 2 ^ 32" "v < 2 ^ 32"
  shows "day_record (encode_bar date c100 v) = bar (str_nat date) (of_nat c100 / 100) v"
  unfolding encode_bar_def bar_def
  using assms by (simp add: day_record_encode_ints)

lemma length_encode_bar: "length (encode_bar date c100 v) = 32"
  unfolding encode_bar_def by (rule length_encode_day_ints) simp

lemma day_data_day_file_of:
  assumes "\<forall>(date, c100, v)\<in>set bars. date < 2 ^ 32 \<and> c100 < 2 ^ 32 \<and> v < 2 ^ 32"
  shows "day_data (day_file_of bars) =
    map (\<lambda>(date, c100, v). bar (str_nat date) (of_nat c100 / 100) v) bars"
proof -
  have "read_records 32 (concat (map (\<lambda>(date, c100, v). encode_bar date c100 v) bars) @ []) =
      map (\<lambda>(date, c100, v). encode_bar date c100 v) bars"
    by (rule read_records_concat) (auto simp: length_encode_bar)
  then have "day_data (day_file_of bars) =
      map day_record (map (\<lambda>(date, c100, v). encode_bar date c100 v) bars)"
    by (simp add: day_data_def day_file_of_def)
  also have "\<dots> = map (\<lambda>(date, c100, v). bar (str_nat date) (of_nat c100 / 100) v) bars"
    using assms by (auto simp: day_record_encode_bar)
  finally show ?thesis .
qed

lemma str_nat_dates:
  "str_nat 20251027 = ''20251027''" "str_nat 20251028 = ''20251028''"
  "str_nat 20251029 = ''20251029''" "str_nat 20251030 = ''20251030''"
  by (simp_all add: str_nat.simps digit_char_def)

lemma parse_example_bars:
  "parse_tdx_day_file (day_file_of example_bars) =
     [bar ''20251027'' 10 1000, bar ''20251028'' 10 1000, bar ''20251029'' 10 1000,
      bar ''20251030'' (101 / 10) 2000]"
proof -
  have "day_data (day_file_of example_bars) =
     [bar ''20251027'' 10 1000, bar ''20251028'' 10 1000, bar ''20251029'' 10 1000,
      bar ''20251030'' (101 / 10) 2000]"
    by (subst day_data_day_file_of) (simp_all add: example_bars_def str_nat_dates)
  then show ?thesis
    by (simp add: parse_tdx_day_file_def bar_def)
qed

lemma chip_data_chip_file_of:
  assumes "date < 2 ^ 32" "e < 256" "m < 2 ^ 23"
  shows "chip_data (chip_file_of date s e m) =
    [\<lparr>chip_trade_date = str_nat date, chip_concentration_70 = f32_value s e m\<rparr>]"
proof -
  have "length (chip_file_of date s e m) = 48"
    unfolding chip_file_of_def by (rule length_encode_chip_record) simp_all
  then have "chip_data (chip_file_of date s e m) = [chip_record (chip_file_of date s e m)]"
    by (rule chip_single)
  then show ?thesis
    unfolding chip_file_of_def using assms by (simp add: chip_record_encode)
qed

lemma bar_sel [simp]:
  "trade_date (bar d c v) = d" "open_p (bar d c v) = c" "high (bar d c v) = c"
  "low (bar d c v) = c" "close (bar d c v) = c" "vol (bar d c v) = v"
  "amount (bar d c v) = 0" "mas (bar d c v) = []"
  by (simp_all add: bar_def)

lemma example_calculate_ma:
  "calculate_ma [bar ''20251027'' 10 1000, bar ''20251028'' 10 1000, bar ''20251029'' 10 1000,
      bar ''20251030'' (101 / 10) 2000] [2] =
     [(bar ''20251027'' 10 1000)\<lparr>mas := [(2, NaN)]\<rparr>,
      (bar ''20251028'' 10 1000)\<lparr>mas := [(2, Fin 10)]\<rparr>,
      (bar ''20251029'' 10 1000)\<lparr>mas := [(2, Fin 10)]\<rparr>,
      (bar ''20251030'' (101 / 10) 2000)\<lparr>mas := [(2, Fin (201 / 20))]\<rparr>]"
  by (simp add: calculate_ma_def set_ma_column_def rolling_mean_def df_tail_def Let_def upt_rec)

lemma example_prev_date:
  "get_prev_trade_date [bar ''20251027'' 10 1000, bar ''20251028'' 10 1000,
      bar ''20251029'' 10 1000, bar ''20251030'' (101 / 10) 2000] ''20251030'' = Some ''20251029''"
  by (simp add: get_prev_trade_date_def)

lemma example_extract:
  assumes "TARGET_DATE cfg = ''20251030''" "MA_LIST cfg = [2]"
  shows "extract_data cfg [example_profile] (example_files chip) ''600000'' =
     Inr (Some
       \<lparr>day_df = calculate_ma (parse_tdx_day_file (day_file_of example_bars)) [2],
        target_row = (bar ''20251030'' (101 / 10) 2000)\<lparr>mas := [(2, Fin (201 / 20))]\<rparr>,
        prev_date = ''20251029'', target_close = 101 / 10, target_vol = 2000, prev_vol = 1000,
        target_amount = 0, cap = 50, stock_name = ''PF Bank'', turnover_rate = Fin 20\<rparr>)"
  unfolding extract_data_def
  by (simp add: example_files_def assms Let_def parse_example_bars
      example_prev_date example_calculate_ma example_profile_def iloc0_def ma_col_def)

lemma small_config_sel [simp]:
  "TARGET_DATE small_config = ''20251030''" "BOX_DAYS small_config = 2"
  "VOLUME_GROWTH_RATIO small_config = 3 / 2" "TURNOVER_RATE_THRESHOLD small_config = 10"
  "MARKET_CAP_THRESHOLD small_config = 100" "CHIP_CONCENTRATION small_config = 70"
  "MA_LIST small_config = [2]" "BREAK_MA_TYPE small_config = ''all''"
  by (simp_all add: small_config_def default_config_def)


lemma chip_values:
  "f32_value False 133 786432 = Fin 70" "f32_value False 0 0 = Fin 0"
  by (simp_all add: f32_value_def)


lemma chip_lookup_None:
  assumes "chip_files fs code = None \<or>
     (\<exists>f. chip_files fs code = Some f \<and>
          (\<forall>r\<in>set (chip_data f). chip_trade_date r \<noteq> TARGET_DATE cfg))"
  shows "parse_tdx_chip_data (chip_files fs) code (TARGET_DATE cfg) = None"
  using assms
proof
  assume "chip_files fs code = None"
  then show ?thesis by (simp add: parse_tdx_chip_data_def)
next
  assume "\<exists>f. chip_files fs code = Some f \<and>
          (\<forall>r\<in>set (chip_data f). chip_trade_date r \<noteq> TARGET_DATE cfg)"
  then obtain f where f: "chip_files fs code = Some f"
    and n: "\<forall>r\<in>set (chip_data f). chip_trade_date r \<noteq> TARGET_DATE cfg" by blast
  from n have "filter (\<lambda>r. chip_trade_date r = TARGET_DATE cfg) (chip_data f) = []"
    by (simp add: filter_empty_conv)
  with f show ?thesis by (simp add: parse_tdx_chip_data_def)
qed

lemma apply_conditions_no_chip:
  "parse_tdx_chip_data (chip_files fs) code (TARGET_DATE cfg) = None \<Longrightarrow>
   apply_conditions cfg fs code d = Inr None"
  by (simp add: apply_conditions_def Let_def)

lemma apply_conditions_zero_chip:
  "parse_tdx_chip_data (chip_files fs) code (TARGET_DATE cfg) = Some (Fin 0) \<Longrightarrow>
   apply_conditions cfg fs code d = Inr None"
  by (simp add: apply_conditions_def Let_def)

lemma excluded_scan_continues:
  assumes "extract_data cfg basic_df fs code = Inr (Some d)"
    and "apply_conditions cfg fs code d = Inr None"
  shows "process_stock cfg basic_df fs code = Inr None \<and>
         scan cfg basic_df fs (code # codes) = scan cfg basic_df fs codes"
  using assms by (simp add: process_stock_def)

text \<open>
  Claim C9. A missing concentration file and a concentration file without a sample for the
  target date are treated alike: in both cases the lookup returns None, the filter conditions
  exclude the instrument without raising, and the scan goes on with the remaining instruments.
\<close>

theorem missing_concentration_excluded:
  assumes "chip_files fs code = None \<or>
     (\<exists>f. chip_files fs code = Some f \<and>
          (\<forall>r\<in>set (chip_data f). chip_trade_date r \<noteq> TARGET_DATE cfg))"
  shows "parse_tdx_chip_data (chip_files fs) code (TARGET_DATE cfg) = None \<and>
         apply_conditions cfg fs code d = Inr None \<and>
         (extract_data cfg basic_df fs code = Inr (Some d) \<longrightarrow>
            process_stock cfg basic_df fs code = Inr None \<and>
            scan cfg basic_df fs (code # codes) = scan cfg basic_df fs codes)"
proof -
  have n: "parse_tdx_chip_data (chip_files fs) code (TARGET_DATE cfg) = None"
    using assms by (rule chip_lookup_None)
  then have a: "apply_conditions cfg fs code d = Inr None"
    by (rule apply_conditions_no_chip)
  from n a show ?thesis using excluded_scan_continues [OF _ a] by blast
qed

text \<open>
  Claim C10. When the sample looked up for the target date is exactly 0.0, the instrument is
  excluded whatever the configured concentration threshold is, as for an absent sample: the
  truthiness test on the looked-up value comes before the comparison with the threshold.
\<close>

theorem zero_concentration_excluded:
  assumes "chip_files fs code = Some f"
    and "filter (\<lambda>r. chip_trade_date r = TARGET_DATE cfg) (chip_data f) = r # rs"
    and "chip_concentration_70 r = Fin 0"
  shows "parse_tdx_chip_data (chip_files fs) code (TARGET_DATE cfg) = Some (Fin 0) \<and>
         apply_conditions cfg fs code d = Inr None \<and>
         (extract_data cfg basic_df fs code = Inr (Some d) \<longrightarrow>
            process_stock cfg basic_df fs code = Inr None \<and>
            scan cfg basic_df fs (code # codes) = scan cfg basic_df fs codes)"
proof -
  have n: "parse_tdx_chip_data (chip_files fs) code (TARGET_DATE cfg) = Some (Fin 0)"
    using assms by (simp add: parse_tdx_chip_data_def)
  then have a: "apply_conditions cfg fs code d = Inr None"
    by (rule apply_conditions_zero_chip)
  from n a show ?thesis using excluded_scan_continues [OF _ a] by blast
qed


theorem missing_concentration_excluded_witness:
  "process_stock small_config [example_profile] (example_files None) ''600000'' = Inr None \<and>
   process_stock small_config [example_profile]
     (example_files (Some (chip_file_of 20251029 False 133 786432))) ''600000'' = Inr None \<and>
   scan small_config [example_profile] (example_files None) [''600000''] = Inr []"
proof -
  let ?d = "\<lparr>day_df = calculate_ma (parse_tdx_day_file (day_file_of example_bars)) [2],
        target_row = (bar ''20251030'' (101 / 10) 2000)\<lparr>mas := [(2, Fin (201 / 20))]\<rparr>,
        prev_date = ''20251029'', target_close = 101 / 10, target_vol = 2000, prev_vol = 1000,
        target_amount = 0, cap = 50, stock_name = ''PF Bank'', turnover_rate = Fin 20\<rparr>"
  have e: "extract_data small_config [example_profile] (example_files chip) ''600000'' =
      Inr (Some ?d)" for chip
    by (rule example_extract) simp_all
  have h1: "chip_files (example_files None) ''600000'' = None \<or>
     (\<exists>f. chip_files (example_files None) ''600000'' = Some f \<and>
          (\<forall>r\<in>set (chip_data f). chip_trade_date r \<noteq> TARGET_DATE small_config))"
    by (simp add: example_files_def)
  have "chip_data (chip_file_of 20251029 False 133 786432) =
      [\<lparr>chip_trade_date = ''20251029'', chip_concentration_70 = Fin 70\<rparr>]"
    by (simp add: chip_data_chip_file_of str_nat_dates chip_values)
  then have h2: "chip_files (example_files (Some (chip_file_of 20251029 False 133 786432))) ''600000'' = None \<or>
     (\<exists>f. chip_files (example_files (Some (chip_file_of 20251029 False 133 786432))) ''600000'' = Some f \<and>
          (\<forall>r\<in>set (chip_data f). chip_trade_date r \<noteq> TARGET_DATE small_config))"
    by (simp add: example_files_def)
  from missing_concentration_excluded [OF h1, of ?d "[example_profile]" "[]"]
    missing_concentration_excluded [OF h2, of ?d "[example_profile]" "[]"] e
  show ?thesis by simp
qed

theorem zero_concentration_excluded_witness:
  "process_stock (small_config\<lparr>CHIP_CONCENTRATION := - 5\<rparr>) [example_profile]
     (example_files (Some (chip_file_of 20251030 False 0 0))) ''600000'' = Inr None \<and>
   scan (small_config\<lparr>CHIP_CONCENTRATION := - 5\<rparr>) [example_profile]
     (example_files (Some (chip_file_of 20251030 False 0 0))) [''600000''] = Inr []"
proof -
  let ?cfg = "small_config\<lparr>CHIP_CONCENTRATION := - 5\<rparr>"
  let ?fs = "example_files (Some (chip_file_of 20251030 False 0 0))"
  let ?d = "\<lparr>day_df = calculate_ma (parse_tdx_day_file (day_file_of example_bars)) [2],
        target_row = (bar ''20251030'' (101 / 10) 2000)\<lparr>mas := [(2, Fin (201 / 20))]\<rparr>,
        prev_date = ''20251029'', target_close = 101 / 10, target_vol = 2000, prev_vol = 1000,
        target_amount = 0, cap = 50, stock_name = ''PF Bank'', turnover_rate = Fin 20\<rparr>"
  have e: "extract_data ?cfg [example_profile] ?fs ''600000'' = Inr (Some ?d)"
    by (rule example_extract) simp_all
  have f: "chip_files ?fs ''600000'' = Some (chip_file_of 20251030 False 0 0)"
    by (simp add: example_files_def)
  have c: "filter (\<lambda>r. chip_trade_date r = TARGET_DATE ?cfg) (chip_data (chip_file_of 20251030 False 0 0)) =
      \<lparr>chip_trade_date = ''20251030'', chip_concentration_70 = Fin 0\<rparr> # []"
    by (simp add: chip_data_chip_file_of str_nat_dates chip_values)
  from zero_concentration_excluded [OF f c, of ?d "[example_profile]" "[]"] e
  show ?thesis by simp
qed



lemma parse_short_history:
  "parse_tdx_day_file (day_file_of short_history) =
     map (\<lambda>d. bar d 10 1000) (tl window_dates) @ [bar ''20251030'' (101 / 10) 2000]"
proof -
  have "day_data (day_file_of short_history) =
     map (\<lambda>d. bar d 10 1000) (tl window_dates) @ [bar ''20251030'' (101 / 10) 2000]"
    by (subst day_data_day_file_of)
      (simp_all add: short_history_def window_dates_def str_nat.simps digit_char_def)
  moreover have "sorted (map trade_date
      (map (\<lambda>d. bar d 10 1000) (tl window_dates) @ [bar ''20251030'' (101 / 10) 2000]))"
    by (simp add: window_dates_def)
  ultimately show ?thesis
    by (simp only: parse_tdx_day_file_def sort_key_id_if_sorted)
qed

lemma default_config_sel [simp]:
  "TARGET_DATE default_config = ''20251030''" "BOX_DAYS default_config = 20"
  "VOLUME_GROWTH_RATIO default_config = 3 / 2" "TURNOVER_RATE_THRESHOLD default_config = 10"
  "MARKET_CAP_THRESHOLD default_config = 100" "CHIP_CONCENTRATION default_config = 70"
  "MA_LIST default_config = [5, 10, 20]" "BREAK_MA_TYPE default_config = ''all''"
  by (simp_all add: default_config_def)

lemma short_calculate_ma:
  "calculate_ma (map (\<lambda>d. bar d 10 1000) (tl window_dates) @ [bar ''20251030'' (101 / 10) 2000])
     [5, 10, 20] =
     [(bar ''20250925'' 10 1000)\<lparr>mas := [(20, NaN), (10, NaN), (5, NaN)]\<rparr>,
      (bar ''20250926'' 10 1000)\<lparr>mas := [(20, NaN), (10, NaN), (5, NaN)]\<rparr>,
      (bar ''20250929'' 10 1000)\<lparr>mas := [(20, NaN), (10, NaN), (5, NaN)]\<rparr>,
      (bar ''20250930'' 10 1000)\<lparr>mas := [(20, NaN), (10, NaN), (5, NaN)]\<rparr>,
      (bar ''20251009'' 10 1000)\<lparr>mas := [(20, NaN), (10, NaN), (5, Fin 10)]\<rparr>,
      (bar ''20251010'' 10 1000)\<lparr>mas := [(20, NaN), (10, NaN), (5, Fin 10)]\<rparr>,
      (bar ''20251013'' 10 1000)\<lparr>mas := [(20, NaN), (10, NaN), (5, Fin 10)]\<rparr>,
      (bar ''20251014'' 10 1000)\<lparr>mas := [(20, NaN), (10, NaN), (5, Fin 10)]\<rparr>,
      (bar ''20251015'' 10 1000)\<lparr>mas := [(20, NaN), (10, NaN), (5, Fin 10)]\<rparr>,
      (bar ''20251016'' 10 1000)\<lparr>mas := [(20, NaN), (10, Fin 10), (5, Fin 10)]\<rparr>,
      (bar ''20251017'' 10 1000)\<lparr>mas := [(20, NaN), (10, Fin 10), (5, Fin 10)]\<rparr>,
      (bar ''20251020'' 10 1000)\<lparr>mas := [(20, NaN), (10, Fin 10), (5, Fin 10)]\<rparr>,
      (bar ''20251021'' 10 1000)\<lparr>mas := [(20, NaN), (10, Fin 10), (5, Fin 10)]\<rparr>,
      (bar ''20251022'' 10 1000)\<lparr>mas := [(20, NaN), (10, Fin 10), (5, Fin 10)]\<rparr>,
      (bar ''20251023'' 10 1000)\<lparr>mas := [(20, NaN), (10, Fin 10), (5, Fin 10)]\<rparr>,
      (bar ''20251024'' 10 1000)\<lparr>mas := [(20, NaN), (10, Fin 10), (5, Fin 10)]\<rparr>,
      (bar ''20251027'' 10 1000)\<lparr>mas := [(20, NaN), (10, Fin 10), (5, Fin 10)]\<rparr>,
      (bar ''20251028'' 10 1000)\<lparr>mas := [(20, NaN), (10, Fin 10), (5, Fin 10)]\<rparr>,
      (bar ''20251029'' 10 1000)\<lparr>mas := [(20, NaN), (10, Fin 10), (5, Fin 10)]\<rparr>,
      (bar ''20251030'' (101 / 10) 2000)\<lparr>mas := [(20, Fin (2001 / 200)), (10, Fin (1001 / 100)), (5, Fin (501 / 50))]\<rparr>]"
  by (simp add: window_dates_def calculate_ma_def set_ma_column_def rolling_mean_def df_tail_def
      Let_def upt_rec)

lemma short_prev_date:
  "get_prev_trade_date
     (map (\<lambda>d. bar d 10 1000) (tl window_dates) @ [bar ''20251030'' (101 / 10) 2000])
     ''20251030'' = Some ''20251029''"
  by (simp add: get_prev_trade_date_def window_dates_def)

lemma short_extract:
  "extract_data default_config [example_profile\<lparr>circulating_share := Some cs\<rparr>]
     short_history_files ''600000'' =
   Inr (Some
     \<lparr>day_df = calculate_ma (parse_tdx_day_file (day_file_of short_history)) [5, 10, 20],
      target_row = (bar ''20251030'' (101 / 10) 2000)
        \<lparr>mas := [(20, Fin (2001 / 200)), (10, Fin (1001 / 100)), (5, Fin (501 / 50))]\<rparr>,
      prev_date = ''20251029'', target_close = 101 / 10, target_vol = 2000, prev_vol = 1000,
      target_amount = 0, cap = 50, stock_name = ''PF Bank'',
      turnover_rate = pf_div (Fin 200000) (Fin cs)\<rparr>)"
  "extract_data default_config [example_profile\<lparr>circulating_share := None\<rparr>]
     short_history_files ''600000'' = Inl (KeyError ''circulating_share'')"
  unfolding extract_data_def
  by (simp_all add: short_history_files_def Let_def parse_short_history short_prev_date
      short_calculate_ma example_profile_def iloc0_def ma_col_def)
     (simp_all add: window_dates_def)

lemma short_box_break:
  "check_box_break (calculate_ma (parse_tdx_day_file (day_file_of short_history)) [5, 10, 20])
     ''20251030'' 20 = Inr (Tuple2 False (Fin 0))"
  unfolding parse_short_history short_calculate_ma
  by (simp add: check_box_break_def df_tail_def Let_def)

lemma short_chip_lookup:
  "parse_tdx_chip_data (chip_files short_history_files) ''600000'' ''20251030'' = Some (Fin 70)"
  by (simp add: parse_tdx_chip_data_def short_history_files_def chip_data_chip_file_of
      str_nat_dates chip_values)

lemma short_basic_info:
  "get_stock_basic_info short_history_files = Inr [example_profile\<lparr>circulating_share := None\<rparr>]"
  by (simp add: get_stock_basic_info_def short_history_files_def example_profile_def a_share_def)

text \<open>
  Claim C1 states that an instrument reaching the box stage with fewer than \<open>BOX_DAYS\<close>
  earlier bars is excluded there and the scan proceeds. The code does not do this. With the
  shipped configuration and an instrument that has 19 bars before the target date and passes
  the volume, turnover and concentration conditions, \<open>check_box_break\<close> returns a pair
  where its caller unpacks a triple: the scan ends with ValueError. Run from the top, the same
  input ends even earlier with KeyError, since the loaded profile frame has no
  \<open>circulating_share\<close> column.
\<close>

theorem insufficient_window_aborts_run:
  "check_box_break (calculate_ma (parse_tdx_day_file (day_file_of short_history)) [5, 10, 20])
     ''20251030'' 20 = Inr (Tuple2 False (Fin 0)) \<and>
   process_stock default_config [example_profile] short_history_files ''600000'' = Inl ValueError \<and>
   scan default_config [example_profile] short_history_files [''600000''] = Inl ValueError \<and>
   stock_selection_tdx_auto default_config short_history_files =
     Inl (KeyError ''circulating_share'')"
proof -
  have p: "example_profile\<lparr>circulating_share := Some 10000\<rparr> = example_profile"
    by (simp add: example_profile_def)
  have a: "process_stock default_config [example_profile] short_history_files ''600000'' =
      Inl ValueError"
    using short_extract(1) [of 10000]
    by (simp add: p process_stock_def apply_conditions_def Let_def short_chip_lookup
        short_box_break)
  then have b: "scan default_config [example_profile] short_history_files [''600000''] =
      Inl ValueError"
    by simp
  have "process_stock default_config [example_profile\<lparr>circulating_share := None\<rparr>]
      short_history_files ''600000'' = Inl (KeyError ''circulating_share'')"
    by (simp add: process_stock_def short_extract(2))
  then have c: "stock_selection_tdx_auto default_config short_history_files =
      Inl (KeyError ''circulating_share'')"
    by (simp add: stock_selection_tdx_auto_def short_basic_info Let_def example_profile_def)
  from short_box_break a b c show ?thesis by blast
qed

lemmas pf_simps = pf_div.simps pf_less.simps pf_mul.simps pf_sub.simps

lemma run_stages_conditions:
  assumes ds: "decoded_series fs (ts_code p) = Inr df0"
    and T: "target_of cfg df0 = Inr trow"
    and P: "prev_of cfg df0 = Inr prow"
    and cs: "circulating_share p = Some cs"
    and d: "day_df d = calculate_ma df0 (MA_LIST cfg)" "target_vol d = vol trow"
      "prev_vol d = vol prow"
      "turnover_rate d = pf_div (Fin (of_nat (vol trow * 100))) (Fin cs)"
  shows "run_stages [VolumeGrowth, TurnoverRate, Concentration, BoxBreakout, MaBreakout] cfg fs p =
    (case apply_conditions cfg fs (ts_code p) d of
       Inl e \<Rightarrow> Inl e
     | Inr None \<Rightarrow> Inr False
     | Inr (Some r) \<Rightarrow> Inr True)"
proof -
  let ?g = "pf_less (pf_div (Fin (of_nat (vol trow))) (Fin (of_nat (vol prow))))
      (Fin (VOLUME_GROWTH_RATIO cfg))"
  let ?t = "pf_less (pf_div (Fin (of_nat (vol trow * 100))) (Fin cs))
      (Fin (TURNOVER_RATE_THRESHOLD cfg))"
  let ?chip = "parse_tdx_chip_data (chip_files fs) (ts_code p) (TARGET_DATE cfg)"
  let ?box = "check_box_break (calculate_ma df0 (MA_LIST cfg)) (TARGET_DATE cfg) (BOX_DAYS cfg)"
  let ?ma = "check_ma_break (calculate_ma df0 (MA_LIST cfg)) (TARGET_DATE cfg) (MA_LIST cfg)
      (BREAK_MA_TYPE cfg)"
  have s4: "run_stage VolumeGrowth cfg fs p = Inr (\<not> ?g)"
    by (simp add: bind_err_def ds T P del: pf_simps)
  have s5: "run_stage TurnoverRate cfg fs p = Inr (\<not> ?t)"
    by (simp add: bind_err_def ds T cs del: pf_simps)
  have s6g: "run_stage Concentration cfg fs p =
      (case ?chip of None \<Rightarrow> Inr False
       | Some chip \<Rightarrow> Inr (\<not> (\<not> truthy ?chip \<or> pf_less chip (Fin (CHIP_CONCENTRATION cfg)))))"
    by (simp add: Let_def del: pf_simps)
  have s7: "run_stage BoxBreakout cfg fs p =
      (case ?box of Inl e \<Rightarrow> Inl e | Inr (Tuple2 x y) \<Rightarrow> Inl ValueError
       | Inr (Tuple3 b x y) \<Rightarrow> Inr b)"
    by (simp add: bind_err_def ds)
  have s8: "run_stage MaBreakout cfg fs p = ?ma"
    by (simp add: bind_err_def ds)
  show ?thesis
  proof (cases ?g)
    case True
    then show ?thesis by (simp add: s4 apply_conditions_def Let_def d del: pf_simps run_stage.simps)
  next
    case g: False
    show ?thesis
    proof (cases ?t)
      case True
      with g show ?thesis by (simp add: s4 s5 apply_conditions_def Let_def d del: pf_simps run_stage.simps)
    next
      case t: False
      show ?thesis
      proof (cases ?chip)
        case None
        with g t show ?thesis
          by (simp add: s4 s5 s6g apply_conditions_def Let_def d del: pf_simps run_stage.simps)
      next
        case (Some chip)
        show ?thesis
        proof (cases "\<not> truthy (Some chip) \<or> pf_less chip (Fin (CHIP_CONCENTRATION cfg))")
          case True
          with g t Some show ?thesis
            by (simp add: s4 s5 s6g apply_conditions_def Let_def d del: pf_simps run_stage.simps)
        next
          case c: False
          have s6: "run_stage Concentration cfg fs p = Inr True"
            using c Some by (simp add: s6g del: pf_simps run_stage.simps)
          have ac: "apply_conditions cfg fs (ts_code p) d =
            (case ?box of
                Inl e \<Rightarrow> Inl e
              | Inr (Tuple2 x y) \<Rightarrow> Inl ValueError
              | Inr (Tuple3 is_box_break box_upper break_ratio) \<Rightarrow>
                  if \<not> is_box_break then Inr None
                  else
                    case ?ma of
                      Inl e \<Rightarrow> Inl e
                    | Inr False \<Rightarrow> Inr None
                    | Inr True \<Rightarrow>
                        Inr (Some
                          \<lparr>sel_ts_code = ts_code p, sel_name = stock_name d,
                           sel_circulating_market_cap = cap d, sel_close = target_close d,
                           sel_ma5 = report_ma (target_row d) (MA_LIST cfg) 5,
                           sel_ma10 = report_ma (target_row d) (MA_LIST cfg) 10,
                           sel_ma20 = report_ma (target_row d) (MA_LIST cfg) 20,
                           sel_volume_growth_pct =
                             pf_mul (pf_sub (pf_div (Fin (of_nat (vol trow))) (Fin (of_nat (vol prow)))) (Fin 1)) (Fin 100),
                           sel_turnover_rate = turnover_rate d,
                           sel_chip_concentration = chip,
                           sel_box_upper = box_upper,
                           sel_break_ratio = break_ratio\<rparr>))"
            using g t c Some unfolding apply_conditions_def Let_def d by (simp del: pf_simps)
          have rs: "run_stages [VolumeGrowth, TurnoverRate, Concentration, BoxBreakout, MaBreakout] cfg fs p =
            (case run_stage BoxBreakout cfg fs p of Inl e \<Rightarrow> Inl e | Inr False \<Rightarrow> Inr False
             | Inr True \<Rightarrow> (case ?ma of Inl e \<Rightarrow> Inl e | Inr False \<Rightarrow> Inr False | Inr True \<Rightarrow> Inr True))"
            unfolding run_stages.simps s4 s5 s6 s8 using g t
            by (simp del: pf_simps run_stage.simps)
          show ?thesis
            unfolding rs ac s7
            by (simp split: sum.splits box_result.splits bool.splits del: pf_simps run_stage.simps)
        qed
      qed
    qed
  qed
qed

lemma process_stock_staged:
  assumes lookup: "iloc0 (filter (\<lambda>r. ts_code r = ts_code p) basic_df) = Inr p"
    and cs: "circulating_share p = Some cs"
  shows "run_stages (tl stage_order) cfg fs p =
    (case process_stock cfg basic_df fs (ts_code p) of
       Inl e \<Rightarrow> Inl e
     | Inr None \<Rightarrow> Inr False
     | Inr (Some r) \<Rightarrow> Inr True)"
proof (cases "day_files fs (ts_code p)")
  case Nil
  then show ?thesis
    by (simp add: stage_order_def process_stock_def extract_data_def)
next
  case (Cons day_file rest)
  let ?df0 = "parse_tdx_day_file day_file"
  have ds: "decoded_series fs (ts_code p) = Inr ?df0"
    by (simp add: decoded_series_def Cons)
  note simps = stage_order_def process_stock_def extract_data_def Cons Let_def
  show ?thesis
  proof (cases "TARGET_DATE cfg \<in> set (map trade_date ?df0)")
    case False
    then show ?thesis by (simp add: simps)
  next
    case target: True
    show ?thesis
    proof (cases "get_prev_trade_date ?df0 (TARGET_DATE cfg)")
      case None
      with target show ?thesis by (simp add: simps)
    next
      case (Some prev)
      show ?thesis
      proof (cases "prev = [] \<or> prev \<notin> set (map trade_date ?df0)")
        case True
        with target Some show ?thesis by (auto simp: simps)
      next
        case good: False
        have s2: "run_stage SeriesAvailability cfg fs p = Inr True"
          using target Some good by (simp add: Cons Let_def)
        have P: "prev_of cfg ?df0 =
            iloc0 (filter (\<lambda>r. trade_date r = prev) (calculate_ma ?df0 (MA_LIST cfg)))"
          by (simp add: prev_of_def Some)
        have ex: "extract_data cfg basic_df fs (ts_code p) =
          (case target_of cfg ?df0 of
             Inl e \<Rightarrow> Inl e
           | Inr trow \<Rightarrow>
               (case any_isna trow (MA_LIST cfg) of
                  Inl e \<Rightarrow> Inl e
                | Inr True \<Rightarrow> Inr None
                | Inr False \<Rightarrow>
                    (case prev_of cfg ?df0 of
                       Inl e \<Rightarrow> Inl e
                     | Inr prow \<Rightarrow>
                         Inr (Some
                           \<lparr>day_df = calculate_ma ?df0 (MA_LIST cfg), target_row = trow,
                            prev_date = prev, target_close = close trow, target_vol = vol trow,
                            prev_vol = vol prow, target_amount = amount trow,
                            cap = circulating_market_cap p, stock_name = name p,
                            turnover_rate =
                              pf_div (Fin (of_nat (vol trow * 100))) (Fin cs)\<rparr>))))"
          using target Some good unfolding extract_data_def Cons Let_def
            target_of_def P lookup
          by (simp add: cs split: sum.splits bool.splits del: pf_simps)
        show ?thesis
        proof (cases "target_of cfg ?df0")
          case (Inl e)
          then have "run_stage MaCompleteness cfg fs p = Inl e"
            by (simp add: bind_err_def ds)
          with Inl show ?thesis
            by (simp add: stage_order_def process_stock_def ex s2 del: run_stage.simps)
        next
          case T: (Inr trow)
          show ?thesis
          proof (cases "any_isna trow (MA_LIST cfg)")
            case (Inl e)
            then have "run_stage MaCompleteness cfg fs p = Inl e"
              by (simp add: bind_err_def ds T)
            with T Inl show ?thesis
              by (simp add: stage_order_def process_stock_def ex s2 del: run_stage.simps)
          next
            case (Inr b)
            then have s3: "run_stage MaCompleteness cfg fs p = Inr (\<not> b)"
              by (simp add: bind_err_def ds T)
            show ?thesis
            proof (cases b)
              case True
              with T Inr s3 show ?thesis
                by (simp add: stage_order_def process_stock_def ex s2 del: run_stage.simps)
            next
              case nb: False
              show ?thesis
              proof (cases "prev_of cfg ?df0")
                case (Inl e)
                then have "run_stage VolumeGrowth cfg fs p = Inl e"
                  by (simp add: bind_err_def ds T)
                with T Inr nb s3 Inl show ?thesis
                  by (simp add: stage_order_def process_stock_def ex s2 del: run_stage.simps)
              next
                case Pr: (Inr prow)
                let ?d = "\<lparr>day_df = calculate_ma ?df0 (MA_LIST cfg), target_row = trow,
                            prev_date = prev, target_close = close trow, target_vol = vol trow,
                            prev_vol = vol prow, target_amount = amount trow,
                            cap = circulating_market_cap p, stock_name = name p,
                            turnover_rate =
                              pf_div (Fin (of_nat (vol trow * 100))) (Fin cs)\<rparr>"
                have e: "extract_data cfg basic_df fs (ts_code p) = Inr (Some ?d)"
                  unfolding ex T using Inr nb Pr by simp
                have "run_stages [VolumeGrowth, TurnoverRate, Concentration, BoxBreakout, MaBreakout] cfg fs p =
                    (case apply_conditions cfg fs (ts_code p) ?d of
                       Inl e \<Rightarrow> Inl e
                     | Inr None \<Rightarrow> Inr False
                     | Inr (Some r) \<Rightarrow> Inr True)"
                  by (rule run_stages_conditions [OF ds T Pr cs]) simp_all
                then show ?thesis
                  using nb s3
                  by (simp add: stage_order_def process_stock_def e s2 del: run_stage.simps)
              qed
            qed
          qed
        qed
      qed
    qed
  qed
qed

lemma run_stages_True_iff:
  "run_stages order cfg fs p = Inr True \<longleftrightarrow> (\<forall>s\<in>set order. run_stage s cfg fs p = Inr True)"
  by (induction order) (auto split: sum.splits bool.splits simp del: run_stage.simps)

lemma run_stages_same_set:
  assumes "set order' = set order"
    and "run_stages order' cfg fs p = Inr b'"
    and "run_stages order cfg fs p = Inr b"
  shows "b' = b"
proof -
  have "b' \<longleftrightarrow> (\<forall>s\<in>set order'. run_stage s cfg fs p = Inr True)"
    using assms(2) run_stages_True_iff [of order' cfg fs p] by auto
  moreover have "b \<longleftrightarrow> (\<forall>s\<in>set order. run_stage s cfg fs p = Inr True)"
    using assms(3) run_stages_True_iff [of order cfg fs p] by auto
  ultimately show ?thesis using assms(1) by simp
qed

text \<open>
  Claim C3, as amended. For every universe, every configuration and every permutation of the
  eight stages: when the scan in the permuted order and the scan in the specified order both
  complete without raising, they select the same instruments. The stages are not total
  predicates, since the later ones index rows whose existence the earlier ones establish, so
  completion of one order does not follow from completion of another.
\<close>

theorem stage_order_irrelevant_when_both_complete:
  assumes "mset order' = mset stage_order"
    and "staged_scan order' cfg fs universe = Inr members'"
    and "staged_scan stage_order cfg fs universe = Inr members"
  shows "members' = members"
proof -
  have s: "set order' = set stage_order"
    using assms(1) by (rule mset_eq_setD)
  show ?thesis
    using assms(2,3)
  proof (induction universe arbitrary: members' members)
    case Nil
    then show ?case by simp
  next
    case (Cons p ps)
    from Cons.prems(1) obtain b' ms' where
      b': "run_stages order' cfg fs p = Inr b'" and
      ms': "staged_scan order' cfg fs ps = Inr ms'" and
      m': "members' = (if b' then ts_code p # ms' else ms')"
      by (auto split: sum.splits)
    from Cons.prems(2) obtain b ms where
      b: "run_stages stage_order cfg fs p = Inr b" and
      ms: "staged_scan stage_order cfg fs ps = Inr ms" and
      m: "members = (if b then ts_code p # ms else ms)"
      by (auto split: sum.splits)
    have "b' = b" using s b' b by (rule run_stages_same_set)
    moreover have "ms' = ms" using ms' ms by (rule Cons.IH)
    ultimately show ?case using m' m by simp
  qed
qed

lemma process_stock_code:
  assumes "process_stock cfg basic_df fs code = Inr (Some r)"
  shows "sel_ts_code r = code"
proof -
  from assms obtain d where "apply_conditions cfg fs code d = Inr (Some r)"
    by (auto simp: process_stock_def split: sum.splits option.splits)
  then show ?thesis
    unfolding apply_conditions_def Let_def
    by (simp split: if_splits option.splits sum.splits box_result.splits bool.splits
        del: pf_simps) auto
qed

lemma filter_unique_key:
  assumes "distinct (map f xs)" "p \<in> set xs"
  shows "filter (\<lambda>r. f r = f p) xs = [p]"
  using assms
proof (induction xs)
  case Nil
  then show ?case by simp
next
  case (Cons x xs)
  show ?case
  proof (cases "x = p")
    case True
    with Cons.prems have "f p \<notin> f ` set xs" by simp
    then have "\<forall>r\<in>set xs. f r \<noteq> f p" by (metis imageI)
    then have "filter (\<lambda>r. f r = f p) xs = []" by (simp add: filter_empty_conv)
    with True show ?thesis by simp
  next
    case False
    with Cons.prems have "p \<in> set xs" "f x \<noteq> f p" by auto
    with Cons show ?thesis by simp
  qed
qed

lemma staged_scan_Cons:
  "run_stages order cfg fs p = Inl e \<Longrightarrow> staged_scan order cfg fs (p # ps) = Inl e"
  "run_stages order cfg fs p = Inr False \<Longrightarrow>
     staged_scan order cfg fs (p # ps) = staged_scan order cfg fs ps"
  "run_stages order cfg fs p = Inr True \<Longrightarrow>
     staged_scan order cfg fs (p # ps) = map_sum id (Cons (ts_code p)) (staged_scan order cfg fs ps)"
  by (cases "staged_scan order cfg fs ps"; simp)+

lemma scan_Cons:
  "process_stock cfg basic_df fs code = Inl e \<Longrightarrow> scan cfg basic_df fs (code # codes) = Inl e"
  "process_stock cfg basic_df fs code = Inr None \<Longrightarrow>
     scan cfg basic_df fs (code # codes) = scan cfg basic_df fs codes"
  "process_stock cfg basic_df fs code = Inr (Some r) \<Longrightarrow>
     scan cfg basic_df fs (code # codes) = map_sum id (Cons r) (scan cfg basic_df fs codes)"
  by (cases "scan cfg basic_df fs codes"; simp)+

lemma scan_staged:
  assumes "distinct (map ts_code df)" and "\<forall>r\<in>set df. circulating_share r \<noteq> None"
  shows "staged_scan stage_order cfg fs df =
    map_sum id (map sel_ts_code)
      (scan cfg (filter (\<lambda>r. circulating_market_cap r \<le> MARKET_CAP_THRESHOLD cfg) df) fs
         (map ts_code (filter (\<lambda>r. circulating_market_cap r \<le> MARKET_CAP_THRESHOLD cfg) df)))"
proof -
  let ?cap = "\<lambda>r. circulating_market_cap r \<le> MARKET_CAP_THRESHOLD cfg"
  let ?B = "filter ?cap df"
  have step: "run_stages stage_order cfg fs p =
      (case process_stock cfg ?B fs (ts_code p) of
         Inl e \<Rightarrow> Inl e | Inr None \<Rightarrow> Inr False | Inr (Some r) \<Rightarrow> Inr True)"
    if "p \<in> set df" "?cap p" for p
  proof -
    have "filter (\<lambda>r. ts_code r = ts_code p) ?B = filter ?cap (filter (\<lambda>r. ts_code r = ts_code p) df)"
      by (simp add: conj_commute)
    also have "\<dots> = [p]"
      using that assms(1) by (simp add: filter_unique_key)
    finally have l: "iloc0 (filter (\<lambda>r. ts_code r = ts_code p) ?B) = Inr p"
      by (simp add: iloc0_def)
    from that(1) assms(2) obtain cs where cs: "circulating_share p = Some cs" by auto
    have "run_stages stage_order cfg fs p = run_stages (tl stage_order) cfg fs p"
      using that(2) by (simp add: stage_order_def del: run_stage.simps) simp
    then show ?thesis using process_stock_staged [OF l cs] by simp
  qed
  have skip: "run_stages stage_order cfg fs p = Inr False" if "\<not> ?cap p" for p
    using that by (simp add: stage_order_def)
  have "staged_scan stage_order cfg fs xs =
      map_sum id (map sel_ts_code) (scan cfg ?B fs (map ts_code (filter ?cap xs)))"
    if "set xs \<subseteq> set df" for xs
    using that
  proof (induction xs)
    case Nil
    show ?case by simp
  next
    case (Cons p ps)
    from Cons.prems have p: "p \<in> set df" and sub: "set ps \<subseteq> set df" by simp_all
    note ih = Cons.IH [OF sub]
    show ?case
    proof (cases "?cap p")
      case False
      have "staged_scan stage_order cfg fs (p # ps) = staged_scan stage_order cfg fs ps"
        by (rule staged_scan_Cons(2) [OF skip [OF False]])
      moreover have "filter ?cap (p # ps) = filter ?cap ps" using False by simp
      ultimately show ?thesis using ih by (simp only:)
    next
      case True
      note st = step [OF p True]
      show ?thesis
      proof (cases "process_stock cfg ?B fs (ts_code p)")
        case (Inl e)
        with st have "run_stages stage_order cfg fs p = Inl e" by simp
        then show ?thesis
          using True Inl by (simp add: staged_scan_Cons(1) scan_Cons(1) del: staged_scan.simps scan.simps)
      next
        case (Inr res)
        show ?thesis
        proof (cases res)
          case None
          with st Inr have "run_stages stage_order cfg fs p = Inr False" by simp
          then show ?thesis
            using True Inr None ih
            by (simp add: staged_scan_Cons(2) scan_Cons(2) del: staged_scan.simps scan.simps)
        next
          case (Some r)
          with Inr have c: "sel_ts_code r = ts_code p" by (simp add: process_stock_code)
          from st Inr Some have "run_stages stage_order cfg fs p = Inr True" by simp
          then show ?thesis
            using True Inr Some ih c
            by (cases "scan cfg ?B fs (map ts_code (filter ?cap ps))")
              (simp_all add: staged_scan_Cons(3) scan_Cons(3) del: staged_scan.simps scan.simps)
        qed
      qed
    qed
  qed
  then show ?thesis by simp
qed

end
